theory Spec2Isabelle
  imports Complex_Main
begin

section \<open>Data model of the backtesting engine\<close>

text \<open>
  The development embeds \<^verbatim>\<open>src/model_testing/backtesting/engine.py\<close>,
  \<^verbatim>\<open>src/model_testing/backtesting/metrics.py\<close>, \<^verbatim>\<open>src/infrastructure/utils/config.py\<close>
  and the part of \<^verbatim>\<open>src/models/strategies/base/base_strategy.py\<close> that the engine calls.

  Conventions.
  \<^item> A Python \<^verbatim>\<open>float\<close> is a \<^typ>\<open>real\<close>: rounding, NaN and the infinities of IEEE
    arithmetic are outside the model, except for the one infinity that \<^verbatim>\<open>calmar_ratio\<close>
    returns on purpose.
  \<^item> A \<^verbatim>\<open>pd.Timestamp\<close> of the daily data is the number of its day, an \<^typ>\<open>int\<close>.
  \<^item> A Python \<^verbatim>\<open>dict\<close> is an association list in insertion order with distinct keys.
  \<^item> Every method that mutates \<^verbatim>\<open>self\<close> takes the object and returns the updated one.
  \<^item> A function that can raise returns a sum: \<open>Inl\<close> carries the exception, together with
    the object as the exception leaves it where the object outlives the call.
  \<^item> The imports at the head of a module are taken to have succeeded. An import statement
    inside a function body is a statement of that body and is executed by the model.
\<close>

type_synonym symbol = string
type_synonym timestamp = int

subsection \<open>Exceptions\<close>

text \<open>
  The exceptions that the modelled code raises itself, and \<open>OtherError\<close> for whatever a
  collaborator (the data loader, a strategy) may raise.
\<close>

datatype error =
    ValueError string
  | ZeroDivisionError
  | ImportError string
  | KeyError string
  | OtherError string

subsection \<open>Python dictionaries\<close>

type_synonym ('k, 'v) dict = "('k \<times> 'v) list"

text \<open>\<^verbatim>\<open>d[k] = v\<close>: an existing key keeps its place, a new key goes last.\<close>

fun dict_set :: "('k, 'v) dict \<Rightarrow> 'k \<Rightarrow> 'v \<Rightarrow> ('k, 'v) dict" where
  "dict_set [] k v = [(k, v)]"
| "dict_set ((k', v') # d) k v =
     (if k' = k then (k, v) # d else (k', v') # dict_set d k v)"

text \<open>\<^verbatim>\<open>d.get(k, default)\<close>: a read that never changes the dictionary.\<close>

definition dict_get :: "('k, 'v) dict \<Rightarrow> 'k \<Rightarrow> 'v \<Rightarrow> 'v" where
  "dict_get d k dflt = (case map_of d k of None \<Rightarrow> dflt | Some v \<Rightarrow> v)"

text \<open>
  \<^verbatim>\<open>d[k]\<close> on a \<^verbatim>\<open>defaultdict(float)\<close>: a missing key is inserted with the
  value \<^verbatim>\<open>0.0\<close> (by \<^verbatim>\<open>__missing__\<close>) and that value is returned. The result is the
  value read and the dictionary after the read.
\<close>

definition defaultdict_getitem :: "('k, real) dict \<Rightarrow> 'k \<Rightarrow> real \<times> ('k, real) dict" where
  "defaultdict_getitem d k =
     (case map_of d k of
        Some v \<Rightarrow> (v, d)
      | None \<Rightarrow> (0, d @ [(k, 0)]))"

subsection \<open>Events\<close>

text \<open>
  Modelled from the spec: the module \<^verbatim>\<open>events.py\<close> that \<^verbatim>\<open>engine.py\<close> imports
  (\<^verbatim>\<open>Event\<close>, \<^verbatim>\<open>EventType\<close>, \<^verbatim>\<open>MarketEvent\<close>, \<^verbatim>\<open>SignalEvent\<close>, \<^verbatim>\<open>OrderEvent\<close>, \<^verbatim>\<open>FillEvent\<close>,
  \<^verbatim>\<open>OrderType\<close>, \<^verbatim>\<open>OrderDirection\<close>) is not among the source files. The types below
  follow section 3 of the specification (an event is a tagged union of four variants, each
  with a timestamp) and carry exactly the fields that \<^verbatim>\<open>engine.py\<close> passes to the
  constructors. The \<^verbatim>\<open>metadata\<close> dictionary of a signal is copied by the engine and
  read by nothing; it is left out.
\<close>

datatype OrderDirection = BUY | SELL

datatype OrderType = MARKET

text \<open>One symbol's entry of \<^verbatim>\<open>MarketEvent.data\<close>, built in \<^verbatim>\<open>BacktestEngine.run\<close>.\<close>

record Bar =
  bar_open :: real
  bar_high :: real
  bar_low :: real
  bar_close :: real
  bar_volume :: real

record MarketEvent =
  me_timestamp :: timestamp
  me_data :: "(symbol, Bar) dict"

record SignalEvent =
  se_timestamp :: timestamp
  se_symbol :: symbol
  se_signal_type :: int
  se_strength :: real
  se_price :: "real option"

record OrderEvent =
  oe_timestamp :: timestamp
  oe_symbol :: symbol
  oe_order_type :: OrderType
  oe_quantity :: real
  oe_direction :: OrderDirection

record FillEvent =
  fe_timestamp :: timestamp
  fe_symbol :: symbol
  fe_quantity :: real
  fe_direction :: OrderDirection
  fe_fill_price :: real
  fe_commission :: real
  fe_slippage :: real

datatype Event =
    Market MarketEvent
  | Signal SignalEvent
  | Order OrderEvent
  | Fill FillEvent

datatype price_field = Open | High | Low | Close | Volume

fun bar_field :: "price_field \<Rightarrow> Bar \<Rightarrow> real" where
  "bar_field Open b = bar_open b"
| "bar_field High b = bar_high b"
| "bar_field Low b = bar_low b"
| "bar_field Close b = bar_close b"
| "bar_field Volume b = bar_volume b"

text \<open>
  Modelled from the spec: \<^verbatim>\<open>MarketEvent.get_price(symbol, field)\<close> is defined in the
  missing \<^verbatim>\<open>events.py\<close>. By section 4.3 it yields the price of the symbol's bar, and
  none when the event has no bar for the symbol.
\<close>

definition get_price :: "MarketEvent \<Rightarrow> symbol \<Rightarrow> price_field \<Rightarrow> real option" where
  "get_price me symb fld = map_option (bar_field fld) (map_of (me_data me) symb)"

text \<open>
  Modelled from the spec: \<^verbatim>\<open>MarketEvent.get_symbols()\<close> is defined in the missing
  \<^verbatim>\<open>events.py\<close>; it lists the symbols that have a bar in the event.
\<close>

definition get_symbols :: "MarketEvent \<Rightarrow> symbol list" where
  "get_symbols me = map fst (me_data me)"

subsection \<open>Portfolio\<close>

text \<open>One row of \<^verbatim>\<open>Portfolio.history\<close>, the equity snapshot of a day.\<close>

record EquitySnapshot =
  snap_timestamp :: timestamp
  snap_cash :: real
  snap_position_value :: real
  snap_total_value :: real
  snap_positions :: "(symbol, real) dict"

record Portfolio =
  initial_capital :: real
  pf_commission :: real
  cash :: real
  positions :: "(symbol, real) dict"
  portfolio_value :: real
  history :: "EquitySnapshot list"

definition Portfolio_init :: "real \<Rightarrow> real \<Rightarrow> Portfolio" where
  "Portfolio_init capital commission =
     \<lparr>initial_capital = capital, pf_commission = commission, cash = capital,
      positions = [], portfolio_value = capital, history = []\<rparr>"

text \<open>
  The body of the loop of \<^verbatim>\<open>update_market_value\<close>: a position adds to the running
  value only when its symbol has a price in today's map and its quantity is not zero.
\<close>

definition position_value_step :: "(symbol, real) dict \<Rightarrow> real \<Rightarrow> symbol \<times> real \<Rightarrow> real" where
  "position_value_step current_prices position_value item =
     (case item of (symb, quantity) \<Rightarrow>
        (case map_of current_prices symb of
           Some price \<Rightarrow> if quantity \<noteq> 0 then position_value + quantity * price else position_value
         | None \<Rightarrow> position_value))"

definition update_market_value :: "Portfolio \<Rightarrow> (symbol, real) dict \<Rightarrow> timestamp \<Rightarrow> Portfolio" where
  "update_market_value p current_prices ts =
     (let position_value = foldl (position_value_step current_prices) 0 (positions p);
          total = cash p + position_value
      in p\<lparr>portfolio_value := total,
            history := history p @
              [\<lparr>snap_timestamp = ts, snap_cash = cash p, snap_position_value = position_value,
                snap_total_value = total, snap_positions = positions p\<rparr>]\<rparr>)"

text \<open>
  \<^verbatim>\<open>self.positions[symb] += q\<close> on the \<^verbatim>\<open>defaultdict\<close>: read (inserting a missing key),
  then store.
\<close>

definition positions_add :: "(symbol, real) dict \<Rightarrow> symbol \<Rightarrow> real \<Rightarrow> (symbol, real) dict" where
  "positions_add d symb q =
     (case defaultdict_getitem d symb of (v, d') \<Rightarrow> dict_set d' symb (v + q))"

definition execute_fill :: "Portfolio \<Rightarrow> FillEvent \<Rightarrow> Portfolio" where
  "execute_fill p fill =
     (if fe_direction fill = BUY then
        (let cost = fe_quantity fill * fe_fill_price fill + fe_commission fill
         in p\<lparr>cash := cash p - cost,
               positions := positions_add (positions p) (fe_symbol fill) (fe_quantity fill)\<rparr>)
      else
        (let proceeds = fe_quantity fill * fe_fill_price fill - fe_commission fill
         in p\<lparr>cash := cash p + proceeds,
               positions := positions_add (positions p) (fe_symbol fill) (- fe_quantity fill)\<rparr>))"

text \<open>
  \<^verbatim>\<open>can_afford\<close> returns a boolean; its sell branch reads \<^verbatim>\<open>self.positions[order.symbol]\<close>
  on the \<^verbatim>\<open>defaultdict\<close>, so the portfolio after the call is part of the result.
\<close>

definition can_afford :: "Portfolio \<Rightarrow> OrderEvent \<Rightarrow> real \<Rightarrow> bool \<times> Portfolio" where
  "can_afford p order current_price =
     (if oe_direction order = BUY then
        (let cost = oe_quantity order * current_price * (1 + pf_commission p)
         in (cash p \<ge> cost, p))
      else
        (case defaultdict_getitem (positions p) (oe_symbol order) of
           (held, d') \<Rightarrow> (held \<ge> oe_quantity order, p\<lparr>positions := d'\<rparr>)))"

definition get_position :: "Portfolio \<Rightarrow> symbol \<Rightarrow> real" where
  "get_position p symb = dict_get (positions p) symb 0"

subsection \<open>Execution handler\<close>

record ExecutionHandler =
  eh_commission :: real
  eh_slippage :: real

definition execute_order :: "ExecutionHandler \<Rightarrow> OrderEvent \<Rightarrow> MarketEvent \<Rightarrow> FillEvent option" where
  "execute_order h order market_data =
     (case get_price market_data (oe_symbol order) Close of
        None \<Rightarrow> None
      | Some current_price \<Rightarrow>
          (let fill_price =
                 (if oe_direction order = BUY then current_price * (1 + eh_slippage h)
                  else current_price * (1 - eh_slippage h));
               commission = max (\<bar>oe_quantity order * fill_price\<bar> * eh_commission h) 1
           in Some \<lparr>fe_timestamp = me_timestamp market_data, fe_symbol = oe_symbol order,
                     fe_quantity = oe_quantity order, fe_direction = oe_direction order,
                     fe_fill_price = fill_price, fe_commission = commission,
                     fe_slippage = eh_slippage h\<rparr>))"

subsection \<open>Configuration\<close>

text \<open>
  \<^verbatim>\<open>BacktestConfig\<close> and \<^verbatim>\<open>RiskConfig\<close> of \<^verbatim>\<open>config.py\<close> with their numeric fields.
  \<^verbatim>\<open>DataConfig\<close>, \<^verbatim>\<open>ExecutionConfig\<close> and the custom dictionary are read by no code of the
  engine except for the connection string handed to the data loader.
\<close>

record BacktestConfig =
  bc_initial_capital :: real
  bc_commission :: real
  bc_slippage :: real
  min_commission :: real

record RiskConfig =
  max_position_size :: real
  stop_loss_pct :: real
  rc_max_drawdown :: real
  max_leverage :: real

record Config =
  backtest :: BacktestConfig
  risk :: RiskConfig

text \<open>The defaults of the dataclasses, which \<^verbatim>\<open>Config()\<close> installs.\<close>

definition default_config :: Config where
  "default_config =
     \<lparr>backtest = \<lparr>bc_initial_capital = 100000, bc_commission = 1 / 1000,
                   bc_slippage = 5 / 10000, min_commission = 1\<rparr>,
      risk = \<lparr>max_position_size = 1 / 10, stop_loss_pct = 2 / 100,
               rc_max_drawdown = 15 / 100, max_leverage = 1\<rparr>\<rparr>"

text \<open>
  \<^verbatim>\<open>Config.validate\<close> collects one message per violated rule, logs them and returns
  whether the list is empty. It has no \<^verbatim>\<open>raise\<close> statement.
\<close>

definition validate_errors :: "Config \<Rightarrow> string list" where
  "validate_errors c =
     (if bc_initial_capital (backtest c) \<le> 0 then [''Initial capital must be positive''] else [])
   @ (if bc_commission (backtest c) < 0 then [''Commission cannot be negative''] else [])
   @ (if bc_slippage (backtest c) < 0 then [''Slippage cannot be negative''] else [])
   @ (if \<not> (0 < max_position_size (risk c) \<and> max_position_size (risk c) \<le> 1)
      then [''Max position size must be between 0 and 1''] else [])
   @ (if stop_loss_pct (risk c) < 0 then [''Stop loss percentage cannot be negative''] else [])
   @ (if \<not> (0 < rc_max_drawdown (risk c) \<and> rc_max_drawdown (risk c) \<le> 1)
      then [''Max drawdown must be between 0 and 1''] else [])"

definition validate :: "Config \<Rightarrow> bool" where
  "validate c = (validate_errors c = [])"

subsection \<open>Strategy interface\<close>

datatype SignalType = SIGNAL_BUY | SIGNAL_SELL | SIGNAL_HOLD

text \<open>The \<^verbatim>\<open>.value\<close> of the enum members \<^verbatim>\<open>BUY = 1\<close>, \<^verbatim>\<open>SELL = -1\<close>, \<^verbatim>\<open>HOLD = 0\<close>.\<close>

fun SignalType_value :: "SignalType \<Rightarrow> int" where
  "SignalType_value SIGNAL_BUY = 1"
| "SignalType_value SIGNAL_SELL = - 1"
| "SignalType_value SIGNAL_HOLD = 0"

text \<open>The dataclass \<^verbatim>\<open>Signal\<close> of \<^verbatim>\<open>base_strategy.py\<close> (without its metadata).\<close>

record StrategySignal =
  sg_timestamp :: timestamp
  sg_symbol :: symbol
  sg_signal_type :: SignalType
  sg_strength :: real
  sg_price :: "real option"

record Position =
  pos_symbol :: symbol
  pos_quantity :: real
  pos_entry_price :: real
  pos_entry_time :: timestamp
  pos_current_price :: real
  pos_unrealized_pnl :: real

text \<open>One row of the data frame that the data loader returns.\<close>

record Row =
  row_date :: timestamp
  ticker :: symbol
  open_price :: real
  high_price :: real
  low_price :: real
  close_price :: real
  volume :: real

text \<open>
  The fields of a \<^verbatim>\<open>BaseStrategy\<close> object that the engine or the base class touches;
  \<open>strat_user\<close> stands for whatever state a concrete strategy adds.
\<close>

record 'u BaseStrategy =
  strat_positions :: "(symbol, Position) dict"
  strat_signals :: "StrategySignal list"
  strat_data :: "Row list option"
  strat_user :: 'u

text \<open>
  The methods a concrete strategy supplies. \<^verbatim>\<open>initialize\<close> and \<^verbatim>\<open>generate_signals\<close> are
  abstract in \<^verbatim>\<open>BaseStrategy\<close>; \<^verbatim>\<open>on_position_opened\<close> may be overridden. Each receives
  the strategy object (\<^verbatim>\<open>self\<close>, with everything stored in it), may change it, and may
  raise: the engine guards none of these calls. \<^verbatim>\<open>generate_signals\<close> receives in addition
  the timestamp and the bar of one symbol (the \<^verbatim>\<open>pd.Series\<close> named after the symbol).
\<close>

record 'u StrategyMethods =
  m_initialize :: "'u BaseStrategy \<Rightarrow> (error \<times> 'u BaseStrategy) + 'u BaseStrategy"
  m_generate_signals ::
    "'u BaseStrategy \<Rightarrow> timestamp \<Rightarrow> symbol \<Rightarrow> Bar
       \<Rightarrow> (error \<times> 'u BaseStrategy) + (StrategySignal list \<times> 'u BaseStrategy)"
  m_on_position_opened ::
    "'u BaseStrategy \<Rightarrow> Position \<Rightarrow> (error \<times> 'u BaseStrategy) + 'u BaseStrategy"

definition set_data :: "'u BaseStrategy \<Rightarrow> Row list \<Rightarrow> 'u BaseStrategy" where
  "set_data s rows = s\<lparr>strat_data := Some rows\<rparr>"

text \<open>The implementations that \<^verbatim>\<open>BaseStrategy\<close> itself gives to the two position callbacks.\<close>

definition on_position_opened :: "'u BaseStrategy \<Rightarrow> Position \<Rightarrow> 'u BaseStrategy" where
  "on_position_opened s position =
     s\<lparr>strat_positions := dict_set (strat_positions s) (pos_symbol position) position\<rparr>"

definition on_position_closed :: "'u BaseStrategy \<Rightarrow> Position \<Rightarrow> real \<Rightarrow> 'u BaseStrategy" where
  "on_position_closed s position realized_pnl =
     (if pos_symbol position \<in> set (map fst (strat_positions s))
      then s\<lparr>strat_positions := filter (\<lambda>kv. fst kv \<noteq> pos_symbol position) (strat_positions s)\<rparr>
      else s)"

text \<open>
  A log entry for each call the engine makes on the strategy object. The log is a ghost
  field of the model: the engine appends to it where the source calls the method, and
  nothing reads it.
\<close>

datatype StrategyCall =
    CallSetData "Row list"
  | CallInitialize
  | CallGenerateSignals timestamp symbol Bar
  | CallOnPositionOpened Position
  | CallOnPositionClosed Position real

text \<open>
  The names that \<^verbatim>\<open>from models.strategies.base import ...\<close> can resolve: those bound by
  \<^verbatim>\<open>src/models/strategies/base/__init__.py\<close> (it imports \<^verbatim>\<open>BaseStrategy\<close> and
  \<^verbatim>\<open>StrategyRegistry\<close>) and the submodules of the package. Importing any other name from
  the package raises \<^verbatim>\<open>ImportError\<close>.
\<close>

definition base_package_names :: "string list" where
  "base_package_names =
     [''BaseStrategy'', ''StrategyRegistry'', ''base_strategy'', ''strategy_registry'']"

definition import_from :: "string list \<Rightarrow> string \<Rightarrow> error + unit" where
  "import_from names n = (if n \<in> set names then Inr () else Inl (ImportError n))"

subsection \<open>Engine\<close>

text \<open>
  The state of one backtest: the fields of the \<^verbatim>\<open>BacktestEngine\<close> object, the strategy
  object that \<^verbatim>\<open>run\<close> and the handlers receive as an argument (kept beside the engine's
  fields because handlers mutate it), and the call log. \<open>events\<close> is the
  \<^verbatim>\<open>queue.Queue\<close>: \<^verbatim>\<open>put\<close> appends at the back, \<^verbatim>\<open>get\<close> takes from the front.
\<close>

record 'u BacktestEngine =
  config :: Config
  portfolio :: Portfolio
  execution_handler :: ExecutionHandler
  events :: "Event list"
  market_data :: "Row list option"
  current_time :: "timestamp option"
  symbols :: "symbol list"
  strategy :: "'u BaseStrategy"
  calls :: "StrategyCall list"

text \<open>
  What a method of the engine that can raise returns: the state after a normal return, or
  the exception with the state in which it leaves the objects.
\<close>

type_synonym 'u outcome = "(error \<times> 'u BacktestEngine) + 'u BacktestEngine"

definition BacktestEngine_init :: "Config \<Rightarrow> 'u BaseStrategy \<Rightarrow> 'u BacktestEngine" where
  "BacktestEngine_init cfg strat_obj =
     \<lparr>config = cfg,
      portfolio = Portfolio_init (bc_initial_capital (backtest cfg)) (bc_commission (backtest cfg)),
      execution_handler =
        \<lparr>eh_commission = bc_commission (backtest cfg), eh_slippage = bc_slippage (backtest cfg)\<rparr>,
      events = [], market_data = None, current_time = None, symbols = [],
      strategy = strat_obj, calls = []\<rparr>"

text \<open>
  \<^verbatim>\<open>load_data\<close>: \<open>loaded\<close> is what the call of the external data loader does for the
  request, the frame it returns or the exception it raises; an empty frame raises.
\<close>

definition load_data :: "'u BacktestEngine \<Rightarrow> symbol list \<Rightarrow> error + Row list \<Rightarrow> 'u outcome" where
  "load_data eng syms loaded =
     (let eng1 = eng\<lparr>symbols := syms\<rparr>
      in case loaded of
           Inl err \<Rightarrow> Inl (err, eng1)
         | Inr rows \<Rightarrow>
             (let eng2 = eng1\<lparr>market_data := Some rows\<rparr>
              in if rows = [] then Inl (ValueError ''No market data loaded'', eng2)
                 else Inr eng2))"

definition put :: "Event \<Rightarrow> 'u BacktestEngine \<Rightarrow> 'u BacktestEngine" where
  "put ev eng = eng\<lparr>events := events eng @ [ev]\<rparr>"

text \<open>A \<^verbatim>\<open>for\<close> loop whose body can raise: the first exception ends the loop.\<close>

fun for_each :: "('s \<Rightarrow> 'a \<Rightarrow> (error \<times> 's) + 's) \<Rightarrow> 's \<Rightarrow> 'a list \<Rightarrow> (error \<times> 's) + 's" where
  "for_each body s [] = Inr s"
| "for_each body s (x # xs) =
     (case body s x of Inl raised \<Rightarrow> Inl raised | Inr s' \<Rightarrow> for_each body s' xs)"

text \<open>
  \<^verbatim>\<open>_handle_market_event\<close>: for every symbol of the event, one call of
  \<^verbatim>\<open>generate_signals\<close> with the event's timestamp and that symbol's bar; every signal
  returned is enqueued as a \<^verbatim>\<open>SignalEvent\<close>. The lookup \<^verbatim>\<open>event.data[symbol]\<close> raises
  \<^verbatim>\<open>KeyError\<close> on a missing key, and an exception of \<^verbatim>\<open>generate_signals\<close> propagates.
\<close>

definition signal_event_of :: "timestamp \<Rightarrow> StrategySignal \<Rightarrow> Event" where
  "signal_event_of ts sg =
     Signal \<lparr>se_timestamp = ts, se_symbol = sg_symbol sg,
             se_signal_type = SignalType_value (sg_signal_type sg),
             se_strength = sg_strength sg, se_price = sg_price sg\<rparr>"

definition market_symbol_step ::
  "'u StrategyMethods \<Rightarrow> MarketEvent \<Rightarrow> 'u BacktestEngine \<Rightarrow> symbol \<Rightarrow> 'u outcome" where
  "market_symbol_step strat event eng symb =
     (case map_of (me_data event) symb of
        None \<Rightarrow> Inl (KeyError symb, eng)
      | Some current_data \<Rightarrow>
          (let eng1 = eng\<lparr>calls := calls eng
                          @ [CallGenerateSignals (me_timestamp event) symb current_data]\<rparr>
           in case m_generate_signals strat (strategy eng) (me_timestamp event) symb current_data of
                Inl (err, s') \<Rightarrow> Inl (err, eng1\<lparr>strategy := s'\<rparr>)
              | Inr (signals, s') \<Rightarrow>
                  Inr (eng1\<lparr>strategy := s',
                            events := events eng
                              @ map (signal_event_of (me_timestamp event)) signals\<rparr>)))"

definition handle_market_event :: "'u StrategyMethods \<Rightarrow> MarketEvent \<Rightarrow> 'u BacktestEngine \<Rightarrow> 'u outcome" where
  "handle_market_event strat event eng =
     for_each (market_symbol_step strat event) eng (get_symbols event)"

text \<open>\<^verbatim>\<open>_handle_signal_event\<close>: sizing and direction, at most one order enqueued.\<close>

definition handle_signal_event :: "SignalEvent \<Rightarrow> 'u BacktestEngine \<Rightarrow> 'u BacktestEngine" where
  "handle_signal_event event eng =
     (let position_size = max_position_size (risk (config eng));
          target_value = portfolio_value (portfolio eng) * position_size;
          current_price =
            (case se_price event of None \<Rightarrow> 100 | Some pr \<Rightarrow> if pr = 0 then 100 else pr);
          target_quantity = target_value / current_price;
          current_position = get_position (portfolio eng) (se_symbol event);
          order = (\<lambda>quantity direction.
            Order \<lparr>oe_timestamp = se_timestamp event, oe_symbol = se_symbol event,
                   oe_order_type = MARKET, oe_quantity = quantity, oe_direction = direction\<rparr>)
      in if se_signal_type event = 1 then
           (if current_position \<le> 0 then put (order target_quantity BUY) eng else eng)
         else if se_signal_type event = - 1 then
           (if current_position \<ge> 0 then
              put (order (if current_position = 0 then target_quantity else current_position) SELL) eng
            else eng)
         else eng)"

text \<open>
  The first loop of \<^verbatim>\<open>_handle_order_event\<close>: events are taken from the front of the
  queue into \<^verbatim>\<open>temp_events\<close> until a market event has been taken or the queue is empty.
  The result is the market event found (if any), \<^verbatim>\<open>temp_events\<close>, and what is left of
  the queue.
\<close>

fun find_market_event ::
  "Event list \<Rightarrow> Event list \<Rightarrow> MarketEvent option \<times> Event list \<times> Event list" where
  "find_market_event [] temp_events = (None, temp_events, [])"
| "find_market_event (Market m # q) temp_events = (Some m, temp_events @ [Market m], q)"
| "find_market_event (e # q) temp_events = find_market_event q (temp_events @ [e])"

definition handle_order_event :: "OrderEvent \<Rightarrow> 'u BacktestEngine \<Rightarrow> 'u BacktestEngine" where
  "handle_order_event event eng =
     (case find_market_event (events eng) [] of
        (found, temp_events, remaining) \<Rightarrow>
          (let eng1 = eng\<lparr>events := remaining @ temp_events\<rparr>
           in case found of
                None \<Rightarrow> eng1
              | Some market_event \<Rightarrow>
                  (case get_price market_event (oe_symbol event) Close of
                     None \<Rightarrow> eng1
                   | Some current_price \<Rightarrow>
                       (case can_afford (portfolio eng1) event current_price of
                          (affordable, p') \<Rightarrow>
                            (let eng2 = eng1\<lparr>portfolio := p'\<rparr>
                             in if \<not> affordable then eng2
                                else (case execute_order (execution_handler eng2) event market_event of
                                        None \<Rightarrow> eng2
                                      | Some fill \<Rightarrow> put (Fill fill) eng2))))))"

text \<open>
  \<^verbatim>\<open>_handle_fill_event\<close>: the fill goes to the ledger. For a buy fill the handler then
  executes \<^verbatim>\<open>from models.strategies.base import Position\<close>, builds the position and calls
  \<^verbatim>\<open>on_position_opened\<close>; the other branch is \<^verbatim>\<open>pass\<close>.
\<close>

definition handle_fill_event :: "'u StrategyMethods \<Rightarrow> FillEvent \<Rightarrow> 'u BacktestEngine \<Rightarrow> 'u outcome" where
  "handle_fill_event strat event eng =
     (let eng1 = eng\<lparr>portfolio := execute_fill (portfolio eng) event\<rparr>
      in if fe_direction event = BUY then
           (case import_from base_package_names ''Position'' of
              Inl err \<Rightarrow> Inl (err, eng1)
            | Inr imported \<Rightarrow>
                (let position = \<lparr>pos_symbol = fe_symbol event, pos_quantity = fe_quantity event,
                                  pos_entry_price = fe_fill_price event,
                                  pos_entry_time = fe_timestamp event,
                                  pos_current_price = fe_fill_price event,
                                  pos_unrealized_pnl = 0\<rparr>;
                     eng2 = eng1\<lparr>calls := calls eng1 @ [CallOnPositionOpened position]\<rparr>
                 in case m_on_position_opened strat (strategy eng1) position of
                      Inl (err, s') \<Rightarrow> Inl (err, eng2\<lparr>strategy := s'\<rparr>)
                    | Inr s' \<Rightarrow> Inr (eng2\<lparr>strategy := s'\<rparr>)))
         else Inr eng1)"

text \<open>The dispatch on \<^verbatim>\<open>event.type\<close> in the body of \<^verbatim>\<open>_process_events\<close>.\<close>

fun handle_event :: "'u StrategyMethods \<Rightarrow> Event \<Rightarrow> 'u BacktestEngine \<Rightarrow> 'u outcome" where
  "handle_event strat (Market e) eng = handle_market_event strat e eng"
| "handle_event strat (Signal e) eng = Inr (handle_signal_event e eng)"
| "handle_event strat (Order e) eng = Inr (handle_order_event e eng)"
| "handle_event strat (Fill e) eng = handle_fill_event strat e eng"

text \<open>
  \<^verbatim>\<open>_process_events\<close>: while the queue is not empty, take the event at the front and
  handle it; an exception of a handler ends the loop. Handlers enqueue further events, so
  the recursion is not structural.
\<close>

function process_events :: "'u StrategyMethods \<Rightarrow> 'u BacktestEngine \<Rightarrow> 'u outcome" where
  "process_events strat eng =
     (case events eng of
        [] \<Rightarrow> Inr eng
      | event # rest \<Rightarrow>
          (case handle_event strat event (eng\<lparr>events := rest\<rparr>) of
             Inl raised \<Rightarrow> Inl raised
           | Inr eng' \<Rightarrow> process_events strat eng'))"
  by pat_completeness auto

text \<open>
  \<^verbatim>\<open>groupby('date')\<close>: one group per distinct date, in ascending order of the date, each
  holding the rows of that date in their original order.
\<close>

definition groupby_date :: "Row list \<Rightarrow> (timestamp \<times> Row list) list" where
  "groupby_date rows =
     map (\<lambda>d. (d, filter (\<lambda>r. row_date r = d) rows)) (sort (remdups (map row_date rows)))"

definition bar_of_row :: "Row \<Rightarrow> Bar" where
  "bar_of_row row =
     \<lparr>bar_open = open_price row, bar_high = high_price row, bar_low = low_price row,
      bar_close = close_price row, bar_volume = volume row\<rparr>"

text \<open>The dictionary \<^verbatim>\<open>market_data\<close> that \<^verbatim>\<open>run\<close> fills from the rows of one day.\<close>

definition build_market_data :: "Row list \<Rightarrow> (symbol, Bar) dict" where
  "build_market_data day_data =
     foldl (\<lambda>md row. dict_set md (ticker row) (bar_of_row row)) [] day_data"

text \<open>
  One iteration of the main loop of \<^verbatim>\<open>run\<close>. When \<^verbatim>\<open>_process_events\<close> raises, the
  iteration ends there and \<^verbatim>\<open>update_market_value\<close> is not reached.
\<close>

definition run_day :: "'u StrategyMethods \<Rightarrow> 'u BacktestEngine \<Rightarrow> timestamp \<times> Row list \<Rightarrow> 'u outcome" where
  "run_day strat eng day =
     (case day of (date, day_data) \<Rightarrow>
        (let eng1 = eng\<lparr>current_time := Some date\<rparr>;
             md = build_market_data day_data;
             market_event = \<lparr>me_timestamp = date, me_data = md\<rparr>;
             eng2 = put (Market market_event) eng1
         in case process_events strat eng2 of
              Inl raised \<Rightarrow> Inl raised
            | Inr eng3 \<Rightarrow>
                (let current_prices = map (\<lambda>kv. (fst kv, bar_close (snd kv))) md
                 in Inr (eng3\<lparr>portfolio :=
                              update_market_value (portfolio eng3) current_prices date\<rparr>))))"

text \<open>
  \<^verbatim>\<open>run\<close>, up to the end of the main loop: load the data, hand the whole frame to the
  strategy (\<^verbatim>\<open>set_data\<close>), initialize the strategy, then one iteration per date. None of
  the calls is guarded, so an exception of the loader, of \<^verbatim>\<open>initialize\<close> or of a day's
  processing ends the run. The dictionary of results that the source assembles after the
  loop (\<^verbatim>\<open>_calculate_results\<close>) is not part of the model.
\<close>

definition run ::
  "'u StrategyMethods \<Rightarrow> 'u BacktestEngine \<Rightarrow> symbol list \<Rightarrow> error + Row list \<Rightarrow> 'u outcome" where
  "run strat eng syms loaded =
     (case load_data eng syms loaded of
        Inl raised \<Rightarrow> Inl raised
      | Inr eng1 \<Rightarrow>
          (let frame = (case market_data eng1 of None \<Rightarrow> [] | Some rows \<Rightarrow> rows);
               eng2 = eng1\<lparr>strategy := set_data (strategy eng1) frame,
                           calls := calls eng1 @ [CallSetData frame]\<rparr>;
               eng3 = eng2\<lparr>calls := calls eng2 @ [CallInitialize]\<rparr>
           in case m_initialize strat (strategy eng2) of
                Inl (err, s') \<Rightarrow> Inl (err, eng3\<lparr>strategy := s'\<rparr>)
              | Inr s' \<Rightarrow> for_each (run_day strat) (eng3\<lparr>strategy := s'\<rparr>) (groupby_date frame)))"

subsection \<open>Performance metrics\<close>

text \<open>
  \<^verbatim>\<open>PerformanceMetrics\<close> of \<^verbatim>\<open>metrics.py\<close>, for the methods behind the Calmar ratio. The
  data frame is the list of its rows. The constructor sorts the rows by timestamp
  (\<open>sort_key\<close> is a stable sort; on the distinct timestamps of an engine run every sort
  agrees with it) and raises when the frame has no \<^verbatim>\<open>total_value\<close> column, which for a
  frame built from snapshots means that it has no row.

  The pandas series arithmetic is taken over the reals: where numpy would produce an
  infinity or NaN (an initial value or a running maximum of zero, a negative base of the
  power), the model has the value HOL gives to the expression.
\<close>

datatype xfloat = Finite real | PosInf

record PerformanceMetrics =
  pm_history :: "EquitySnapshot list"
  risk_free_rate :: real

definition PerformanceMetrics_init :: "EquitySnapshot list \<Rightarrow> real \<Rightarrow> error + PerformanceMetrics" where
  "PerformanceMetrics_init portfolio_history rf =
     (if portfolio_history = []
      then Inl (ValueError ''Portfolio history must contain total_value column'')
      else Inr \<lparr>pm_history = sort_key snap_timestamp portfolio_history, risk_free_rate = rf\<rparr>)"

definition total_return :: "PerformanceMetrics \<Rightarrow> real" where
  "total_return m =
     (if length (pm_history m) < 2 then 0
      else (let initial_value = snap_total_value (hd (pm_history m));
                final_value = snap_total_value (last (pm_history m))
            in (final_value - initial_value) / initial_value))"

definition annualized_return :: "PerformanceMetrics \<Rightarrow> real" where
  "annualized_return m =
     (if length (pm_history m) < 2 then 0
      else (let total_ret = total_return m;
                start_date = snap_timestamp (hd (pm_history m));
                end_date = snap_timestamp (last (pm_history m));
                years = real_of_int (end_date - start_date) / (36525 / 100)
            in if years \<le> 0 then 0 else (1 + total_ret) powr (1 / years) - 1))"

text \<open>\<^verbatim>\<open>expanding().max()\<close>: the running maximum of a series.\<close>

fun expanding_max_from :: "real \<Rightarrow> real list \<Rightarrow> real list" where
  "expanding_max_from m [] = []"
| "expanding_max_from m (x # xs) = max m x # expanding_max_from (max m x) xs"

definition expanding_max :: "real list \<Rightarrow> real list" where
  "expanding_max xs = (case xs of [] \<Rightarrow> [] | x # rest \<Rightarrow> x # expanding_max_from x rest)"

text \<open>
  \<^verbatim>\<open>Series.min()\<close>. \<^verbatim>\<open>max_drawdown\<close> takes it of a series of at least two values; the
  value on the empty series is never used.
\<close>

definition series_min :: "real list \<Rightarrow> real" where
  "series_min xs = (case xs of [] \<Rightarrow> 0 | x # rest \<Rightarrow> foldl min x rest)"

definition max_drawdown :: "PerformanceMetrics \<Rightarrow> real" where
  "max_drawdown m =
     (if length (pm_history m) < 2 then 0
      else (let portfolio_values = map snap_total_value (pm_history m);
                rolling_max = expanding_max portfolio_values;
                drawdown = map2 (\<lambda>v mx. (v - mx) / mx) portfolio_values rolling_max
            in \<bar>series_min drawdown\<bar>))"

text \<open>
  Division of Python floats raises \<^verbatim>\<open>ZeroDivisionError\<close> on a zero divisor. The final
  division of \<^verbatim>\<open>calmar_ratio\<close> is modelled with that failure, so that the guard before
  it has something to guard.
\<close>

definition float_div :: "real \<Rightarrow> real \<Rightarrow> error + real" where
  "float_div a b = (if b = 0 then Inl ZeroDivisionError else Inr (a / b))"

definition calmar_ratio :: "PerformanceMetrics \<Rightarrow> error + xfloat" where
  "calmar_ratio m =
     (let annual_ret = annualized_return m;
          max_dd = max_drawdown m
      in if max_dd = 0 then Inr (if annual_ret > 0 then PosInf else Finite 0)
         else map_sum id Finite (float_div annual_ret max_dd))"

section \<open>Notions used in the statements\<close>

text \<open>Events that are signals or orders: what the queue holds once the market event is taken.\<close>

fun is_signal_or_order :: "Event \<Rightarrow> bool" where
  "is_signal_or_order (Signal s) = True"
| "is_signal_or_order (Order oe) = True"
| "is_signal_or_order e = False"

text \<open>
  The calls of \<^verbatim>\<open>generate_signals\<close> that one day of the main loop is expected to make:
  one per symbol of the day's market event, with the day's date and that symbol's bar.
\<close>

definition day_calls :: "timestamp \<times> Row list \<Rightarrow> StrategyCall list" where
  "day_calls day =
     (case day of (date, day_data) \<Rightarrow>
        map (\<lambda>kv. CallGenerateSignals date (fst kv) (snd kv)) (build_market_data day_data))"

text \<open>
  The calls on the strategy that a run over the given frame is expected to make, in order:
  \<^verbatim>\<open>set_data\<close> with the whole frame, \<^verbatim>\<open>initialize\<close>, then the calls of each date.
\<close>

definition run_calls :: "Row list \<Rightarrow> StrategyCall list" where
  "run_calls rows = CallSetData rows # CallInitialize # concat (map day_calls (groupby_date rows))"

text \<open>A strategy whose \<^verbatim>\<open>initialize\<close> and \<^verbatim>\<open>generate_signals\<close> return on every input.\<close>

definition never_raises :: "'u StrategyMethods \<Rightarrow> bool" where
  "never_raises strat =
     ((\<forall>s. \<not> isl (m_initialize strat s))
      \<and> (\<forall>s ts symb b. \<not> isl (m_generate_signals strat s ts symb b)))"

text \<open>
  What is visible of a run from outside: the exception it ended with, if any, and the
  number of equity snapshots recorded by then.
\<close>

definition raised_and_snapshots :: "'u outcome \<Rightarrow> error option \<times> nat" where
  "raised_and_snapshots r =
     (case r of
        Inl (err, eng) \<Rightarrow> (Some err, length (history (portfolio eng)))
      | Inr eng \<Rightarrow> (None, length (history (portfolio eng))))"

text \<open>The engine object of an outcome, whether the call returned or raised.\<close>

definition state_of :: "'u outcome \<Rightarrow> 'u BacktestEngine" where
  "state_of r = (case r of Inl (err, eng) \<Rightarrow> eng | Inr eng \<Rightarrow> eng)"

text \<open>The dictionary \<^verbatim>\<open>current_prices\<close> that \<^verbatim>\<open>run\<close> passes to \<^verbatim>\<open>update_market_value\<close>.\<close>

definition day_prices :: "Row list \<Rightarrow> (symbol, real) dict" where
  "day_prices day_data = map (\<lambda>kv. (fst kv, bar_close (snd kv))) (build_market_data day_data)"

text \<open>
  The specification's formula for the total value of a snapshot (section 8): cash plus,
  for every held symbol, quantity times the last known price. \<open>spec_last_known_price\<close>
  reads the price maps passed to \<^verbatim>\<open>update_market_value\<close> so far, oldest first, and
  returns the most recent price of the symbol. These two definitions follow the words of
  the specification, not the source; they serve to compare the two.
\<close>

fun spec_last_known_price :: "(symbol, real) dict list \<Rightarrow> symbol \<Rightarrow> real option" where
  "spec_last_known_price [] symb = None"
| "spec_last_known_price (m # ms) symb =
     (case spec_last_known_price ms symb of Some pr \<Rightarrow> Some pr | None \<Rightarrow> map_of m symb)"

definition spec_total_value :: "Portfolio \<Rightarrow> (symbol, real) dict list \<Rightarrow> real" where
  "spec_total_value p price_maps =
     cash p + sum_list (map (\<lambda>kv. snd kv * (case spec_last_known_price price_maps (fst kv) of
                                                Some pr \<Rightarrow> pr | None \<Rightarrow> 0)) (positions p))"

text \<open>The sum that \<^verbatim>\<open>update_market_value\<close> accumulates, as a sum over the ledger.\<close>

definition priced_today :: "(symbol, real) dict \<Rightarrow> symbol \<times> real \<Rightarrow> real" where
  "priced_today current_prices kv =
     (case map_of current_prices (fst kv) of Some pr \<Rightarrow> snd kv * pr | None \<Rightarrow> 0)"

text \<open>
  What the handling of a market event leaves untouched, whether it returns or raises: the
  ledger, the configuration and the execution handler.
\<close>

definition same_ledger :: "'u BacktestEngine \<Rightarrow> 'u BacktestEngine \<Rightarrow> bool" where
  "same_ledger a b =
     (portfolio b = portfolio a \<and> config b = config a
      \<and> execution_handler b = execution_handler a)"

text \<open>The log entry of the call of \<^verbatim>\<open>generate_signals\<close> for one entry of a market event.\<close>

definition gen_call :: "timestamp \<Rightarrow> symbol \<times> Bar \<Rightarrow> StrategyCall" where
  "gen_call ts kv = CallGenerateSignals ts (fst kv) (snd kv)"

text \<open>
  The state in which the main loop of a run starts: the symbols and the frame are stored,
  \<^verbatim>\<open>set_data\<close> and \<^verbatim>\<open>initialize\<close> have been called, and the strategy object is the one
  that \<^verbatim>\<open>initialize\<close> left.
\<close>

definition loop_start :: "'u StrategyMethods \<Rightarrow> 'u BacktestEngine \<Rightarrow> symbol list \<Rightarrow> Row list
    \<Rightarrow> 'u BaseStrategy \<Rightarrow> 'u BacktestEngine" where
  "loop_start strat eng syms rows s' =
     eng\<lparr>symbols := syms, market_data := Some rows,
         calls := calls eng @ [CallSetData rows, CallInitialize], strategy := s'\<rparr>"

text \<open>
  Relations between two engines that run the same strategy on the same data with different
  configurations: the strategy objects and the calls made agree; in addition the same
  number of snapshots has been recorded; in addition both queues are empty.
\<close>

definition same_strategy :: "'u BacktestEngine \<Rightarrow> 'u BacktestEngine \<Rightarrow> bool" where
  "same_strategy a b = (strategy a = strategy b \<and> calls a = calls b)"

definition same_progress :: "'u BacktestEngine \<Rightarrow> 'u BacktestEngine \<Rightarrow> bool" where
  "same_progress a b =
     (same_strategy a b \<and> length (history (portfolio a)) = length (history (portfolio b)))"

definition same_progress_idle :: "'u BacktestEngine \<Rightarrow> 'u BacktestEngine \<Rightarrow> bool" where
  "same_progress_idle a b = (same_progress a b \<and> events a = [] \<and> events b = [])"

subsection \<open>Concrete inputs\<close>

text \<open>
  A strategy that answers every bar with one buy signal at the bar's close and never
  raises.
\<close>

definition buy_strategy :: "unit StrategyMethods" where
  "buy_strategy =
     \<lparr>m_initialize = (\<lambda>s. Inr s),
      m_generate_signals = (\<lambda>s ts symb b.
         Inr ([\<lparr>sg_timestamp = ts, sg_symbol = symb, sg_signal_type = SIGNAL_BUY,
                sg_strength = 1, sg_price = Some (bar_close b)\<rparr>], s)),
      m_on_position_opened = (\<lambda>s position. Inr (on_position_opened s position))\<rparr>"

definition fresh_strategy :: "unit BaseStrategy" where
  "fresh_strategy = \<lparr>strat_positions = [], strat_signals = [], strat_data = None, strat_user = ()\<rparr>"




definition aapl_bar :: Bar where
  "aapl_bar = \<lparr>bar_open = 99, bar_high = 101, bar_low = 98, bar_close = 100, bar_volume = 5000\<rparr>"

definition aapl_row :: Row where
  "aapl_row = \<lparr>row_date = 1, ticker = ''AAPL'', open_price = 99, high_price = 101,
               low_price = 98, close_price = 100, volume = 5000\<rparr>"

definition msft_row :: Row where
  "msft_row = \<lparr>row_date = 1, ticker = ''MSFT'', open_price = 49, high_price = 51,
               low_price = 48, close_price = 50, volume = 7000\<rparr>"

definition aapl_row2 :: Row where
  "aapl_row2 = \<lparr>row_date = 2, ticker = ''AAPL'', open_price = 100, high_price = 112,
                low_price = 100, close_price = 110, volume = 6000\<rparr>"

definition aapl_signal :: SignalEvent where
  "aapl_signal = \<lparr>se_timestamp = 1, se_symbol = ''AAPL'', se_signal_type = 1,
                   se_strength = 1, se_price = Some 100\<rparr>"

definition aapl_order :: OrderEvent where
  "aapl_order = \<lparr>oe_timestamp = 1, oe_symbol = ''AAPL'', oe_order_type = MARKET,
                  oe_quantity = 100, oe_direction = BUY\<rparr>"

definition aapl_market_event :: MarketEvent where
  "aapl_market_event = \<lparr>me_timestamp = 1, me_data = [(''AAPL'', aapl_bar)]\<rparr>"

text \<open>The position object that \<^verbatim>\<open>_handle_fill_event\<close> builds from a buy fill.\<close>

definition position_of_fill :: "FillEvent \<Rightarrow> Position" where
  "position_of_fill event =
     \<lparr>pos_symbol = fe_symbol event, pos_quantity = fe_quantity event,
      pos_entry_price = fe_fill_price event, pos_entry_time = fe_timestamp event,
      pos_current_price = fe_fill_price event, pos_unrealized_pnl = 0\<rparr>"


definition aapl_sell_fill :: FillEvent where
  "aapl_sell_fill = \<lparr>fe_timestamp = 2, fe_symbol = ''AAPL'', fe_quantity = 10, fe_direction = SELL,
                      fe_fill_price = 110, fe_commission = 1, fe_slippage = 0\<rparr>"

definition aapl_sell_order :: OrderEvent where
  "aapl_sell_order = \<lparr>oe_timestamp = 1, oe_symbol = ''AAPL'', oe_order_type = MARKET,
                       oe_quantity = 5, oe_direction = SELL\<rparr>"

definition one_share_order :: OrderEvent where
  "one_share_order = \<lparr>oe_timestamp = 1, oe_symbol = ''AAPL'', oe_order_type = MARKET,
                       oe_quantity = 1, oe_direction = BUY\<rparr>"

text \<open>The default configuration with the minimum commission set to 5.\<close>

definition min5_config :: Config where
  "min5_config = default_config\<lparr>backtest := (backtest default_config)\<lparr>min_commission := 5\<rparr>\<rparr>"

text \<open>
  The quantity that \<^verbatim>\<open>_handle_signal_event\<close> computes as \<^verbatim>\<open>target_quantity\<close>, and the
  order event it builds.
\<close>

definition target_quantity :: "'u BacktestEngine \<Rightarrow> SignalEvent \<Rightarrow> real" where
  "target_quantity eng event =
     portfolio_value (portfolio eng) * max_position_size (risk (config eng))
       / (case se_price event of None \<Rightarrow> 100 | Some pr \<Rightarrow> if pr = 0 then 100 else pr)"

definition order_for :: "SignalEvent \<Rightarrow> real \<Rightarrow> OrderDirection \<Rightarrow> Event" where
  "order_for event quantity direction =
     Order \<lparr>oe_timestamp = se_timestamp event, oe_symbol = se_symbol event,
            oe_order_type = MARKET, oe_quantity = quantity, oe_direction = direction\<rparr>"

text \<open>A portfolio that is short 10 shares of AAPL, reached by one sell fill.\<close>

definition aapl_short_fill :: FillEvent where
  "aapl_short_fill = \<lparr>fe_timestamp = 0, fe_symbol = ''AAPL'', fe_quantity = 10, fe_direction = SELL,
                       fe_fill_price = 100, fe_commission = 1, fe_slippage = 0\<rparr>"

definition short_engine :: "unit BacktestEngine" where
  "short_engine =
     (BacktestEngine_init default_config fresh_strategy)
       \<lparr>portfolio := execute_fill (Portfolio_init 100000 (1 / 1000)) aapl_short_fill\<rparr>"

definition aapl_sell_signal :: SignalEvent where
  "aapl_sell_signal = \<lparr>se_timestamp = 1, se_symbol = ''AAPL'', se_signal_type = - 1,
                        se_strength = 1, se_price = Some 100\<rparr>"

text \<open>
  A portfolio of 1000 buys 10 shares of AAPL at 5 (commission 1), is valued on day 1 with
  the AAPL price 5 in the map, and on day 2 with a price map that has no AAPL entry.
\<close>

definition small_buy_fill :: FillEvent where
  "small_buy_fill = \<lparr>fe_timestamp = 1, fe_symbol = ''AAPL'', fe_quantity = 10, fe_direction = BUY,
                      fe_fill_price = 5, fe_commission = 1, fe_slippage = 0\<rparr>"

definition small_sell_fill :: FillEvent where
  "small_sell_fill = \<lparr>fe_timestamp = 3, fe_symbol = ''AAPL'', fe_quantity = 10, fe_direction = SELL,
                       fe_fill_price = 5, fe_commission = 1, fe_slippage = 0\<rparr>"

definition held_portfolio :: Portfolio where
  "held_portfolio = execute_fill (Portfolio_init 1000 0) small_buy_fill"

definition two_day_portfolio :: Portfolio where
  "two_day_portfolio =
     update_market_value (update_market_value held_portfolio [(''AAPL'', 5)] 1) [(''MSFT'', 50)] 2"

text \<open>A configuration that breaks three rules of \<^verbatim>\<open>Config.validate\<close>.\<close>

definition bad_config :: Config where
  "bad_config =
     \<lparr>backtest = \<lparr>bc_initial_capital = 100000, bc_commission = - 1, bc_slippage = - 1,
                   min_commission = 1\<rparr>,
      risk = \<lparr>max_position_size = 2, stop_loss_pct = 2 / 100, rc_max_drawdown = 15 / 100,
               max_leverage = 1\<rparr>\<rparr>"

text \<open>A snapshot with the given timestamp and total value, all of it cash.\<close>

definition snap :: "timestamp \<Rightarrow> real \<Rightarrow> EquitySnapshot" where
  "snap ts v = \<lparr>snap_timestamp = ts, snap_cash = v, snap_position_value = 0,
               snap_total_value = v, snap_positions = []\<rparr>"

section \<open>Termination of the event loop\<close>

text \<open>
  A market event may enqueue any number of signals, a signal at most one order, an order
  at most one fill, a fill nothing. The queue therefore shrinks in the lexicographic order
  of the number of market events and the weighted number of the other events.
\<close>

fun n_market :: "Event list \<Rightarrow> nat" where
  "n_market [] = 0"
| "n_market (Market m # q) = Suc (n_market q)"
| "n_market (e # q) = n_market q"

fun event_weight :: "Event \<Rightarrow> nat" where
  "event_weight (Market m) = 0"
| "event_weight (Signal s) = 3"
| "event_weight (Order oe) = 2"
| "event_weight (Fill f) = 1"

definition queue_weight :: "Event list \<Rightarrow> nat" where
  "queue_weight q = sum_list (map event_weight q)"

lemma n_market_append: "n_market (q @ r) = n_market q + n_market r"
  by (induction q rule: n_market.induct) simp_all

lemma queue_weight_append: "queue_weight (q @ r) = queue_weight q + queue_weight r"
  by (simp add: queue_weight_def)

lemma n_market_signal_events: "n_market (map (signal_event_of ts) sgs) = 0"
  by (induction sgs) (simp_all add: signal_event_of_def)

lemma events_market_symbol_step:
  assumes "market_symbol_step strat event eng symb = Inr eng'"
  shows "\<exists>sgs. events eng' = events eng @ map (signal_event_of (me_timestamp event)) sgs"
  using assms
  by (auto simp: market_symbol_step_def Let_def split: option.splits sum.splits prod.splits)

lemma n_market_market_symbol_step:
  assumes "market_symbol_step strat event eng symb = Inr eng'"
  shows "n_market (events eng') = n_market (events eng)"
proof -
  obtain sgs where "events eng' = events eng @ map (signal_event_of (me_timestamp event)) sgs"
    using events_market_symbol_step [OF assms] by blast
  then show ?thesis by (simp add: n_market_append n_market_signal_events)
qed

lemma for_each_preserves:
  assumes "for_each body s xs = Inr s'"
    and "P s"
    and "\<And>a x b. body a x = Inr b \<Longrightarrow> P a \<Longrightarrow> P b"
  shows "P s'"
  using assms(1,2)
proof (induction xs arbitrary: s)
  case Nil
  then show ?case by simp
next
  case (Cons x xs)
  from Cons.prems(1) obtain s1 where b: "body s x = Inr s1" and r: "for_each body s1 xs = Inr s'"
    by (auto split: sum.splits)
  from assms(3) [OF b Cons.prems(2)] have "P s1" .
  from Cons.IH [OF r this] show ?case .
qed

lemma n_market_handle_market_event:
  assumes "handle_market_event strat event eng = Inr eng'"
  shows "n_market (events eng') = n_market (events eng)"
proof -
  have f: "for_each (market_symbol_step strat event) eng (get_symbols event) = Inr eng'"
    using assms by (simp add: handle_market_event_def)
  show ?thesis
    by (rule for_each_preserves [OF f, where P = "\<lambda>e. n_market (events e) = n_market (events eng)"])
       (simp_all add: n_market_market_symbol_step)
qed

lemma events_handle_signal_event:
  "events (handle_signal_event event eng) = events eng
   \<or> (\<exists>oe. events (handle_signal_event event eng) = events eng @ [Order oe])"
  by (simp add: handle_signal_event_def put_def Let_def)

lemma find_market_event_append:
  "find_market_event q temp = (found, temp', remaining) \<Longrightarrow> temp' @ remaining = temp @ q"
  by (induction q temp rule: find_market_event.induct) auto

lemma events_handle_order_event:
  "\<exists>temp remaining. temp @ remaining = events eng
     \<and> (events (handle_order_event event eng) = remaining @ temp
        \<or> (\<exists>f. events (handle_order_event event eng) = remaining @ temp @ [Fill f]))"
proof -
  obtain found temp remaining where f: "find_market_event (events eng) [] = (found, temp, remaining)"
    by (metis prod_cases3)
  have "temp @ remaining = events eng"
    using find_market_event_append [OF f] by simp
  moreover have "events (handle_order_event event eng) = remaining @ temp
        \<or> (\<exists>f. events (handle_order_event event eng) = remaining @ temp @ [Fill f])"
    using f by (auto simp: handle_order_event_def put_def Let_def split: option.splits prod.splits)
  ultimately show ?thesis by blast
qed

lemma events_handle_fill_event:
  "handle_fill_event strat event eng = Inr eng' \<Longrightarrow> events eng' = events eng"
  by (auto simp: handle_fill_event_def Let_def split: if_splits sum.splits prod.splits)

lemma handle_event_decreases:
  assumes "handle_event strat ev (eng\<lparr>events := rest\<rparr>) = Inr eng'"
  shows "(n_market (events eng'), queue_weight (events eng'))
   \<in> {(a, b). a < n_market (ev # rest) \<or> a = n_market (ev # rest) \<and> b < queue_weight (ev # rest)}"
proof (cases ev)
  case (Market m)
  with assms have "handle_market_event strat m (eng\<lparr>events := rest\<rparr>) = Inr eng'" by simp
  from n_market_handle_market_event [OF this] Market show ?thesis by simp
next
  case (Signal s)
  with assms have e: "eng' = handle_signal_event s (eng\<lparr>events := rest\<rparr>)" by simp
  show ?thesis
    using events_handle_signal_event [of s "eng\<lparr>events := rest\<rparr>"] Signal
    by (auto simp: e n_market_append queue_weight_append queue_weight_def)
next
  case (Order oe)
  with assms have e: "eng' = handle_order_event oe (eng\<lparr>events := rest\<rparr>)" by simp
  obtain temp remaining where
    tr: "temp @ remaining = rest" and
    ev: "events eng' = remaining @ temp \<or> (\<exists>f. events eng' = remaining @ temp @ [Fill f])"
    using events_handle_order_event [of "eng\<lparr>events := rest\<rparr>" oe] e by auto
  have n: "n_market rest = n_market temp + n_market remaining"
    using tr n_market_append by metis
  have w: "queue_weight rest = queue_weight temp + queue_weight remaining"
    using tr queue_weight_append by metis
  from ev show ?thesis
    using Order n w by (auto simp: n_market_append queue_weight_append) (simp_all add: queue_weight_def)
next
  case (Fill f)
  with assms have "handle_fill_event strat f (eng\<lparr>events := rest\<rparr>) = Inr eng'" by simp
  from events_handle_fill_event [OF this] Fill show ?thesis by (simp add: queue_weight_def)
qed

termination process_events
proof (relation "inv_image (less_than <*lex*> less_than)
                   (\<lambda>(strat, eng). (n_market (events eng), queue_weight (events eng)))")
  show "wf (inv_image (less_than <*lex*> less_than)
              (\<lambda>(strat :: 'u StrategyMethods, eng :: 'u BacktestEngine).
                 (n_market (events eng), queue_weight (events eng))))"
    by (intro wf_inv_image wf_lex_prod wf_less_than)
next
  fix strat :: "'u StrategyMethods" and eng eng' :: "'u BacktestEngine" and event rest
  assume "events eng = event # rest"
    and "handle_event strat event (eng\<lparr>events := rest\<rparr>) = Inr eng'"
  then show "((strat, eng'), (strat, eng))
      \<in> inv_image (less_than <*lex*> less_than)
           (\<lambda>(strat, eng). (n_market (events eng), queue_weight (events eng)))"
    using handle_event_decreases [where strat = strat and ev = event and eng = eng
        and rest = rest and eng' = eng']
    by auto
qed

section \<open>Dictionary lemmas\<close>

lemma map_of_dict_set: "map_of (dict_set d k v) k' = (if k' = k then Some v else map_of d k')"
  by (induction d) auto

lemma dict_get_Nil: "dict_get [] k dflt = dflt"
  by (simp add: dict_get_def)

lemma dict_get_positions_add:
  "dict_get (positions_add d s q) s' 0 = (if s' = s then dict_get d s 0 + q else dict_get d s' 0)"
  by (auto simp: positions_add_def defaultdict_getitem_def dict_get_def map_of_dict_set
           split: option.splits)

lemma get_price_dict_set:
  "get_price \<lparr>me_timestamp = d, me_data = dict_set bars s b\<rparr> s fld = Some (bar_field fld b)"
  by (simp add: get_price_def map_of_dict_set)

section \<open>The event loop\<close>

declare process_events.simps [simp del]

lemma process_events_Nil: "events eng = [] \<Longrightarrow> process_events strat eng = Inr eng"
  by (subst process_events.simps) simp

lemma process_events_Cons:
  "events eng = ev # rest \<Longrightarrow>
   process_events strat eng
     = (case handle_event strat ev (eng\<lparr>events := rest\<rparr>) of
          Inl raised \<Rightarrow> Inl raised
        | Inr eng' \<Rightarrow> process_events strat eng')"
  by (subst process_events.simps) simp

lemma events_process_events:
  "process_events strat eng = Inr eng' \<Longrightarrow> events eng' = []"
proof (induction strat eng rule: process_events.induct)
  case (1 strat eng)
  show ?case
  proof (cases "events eng")
    case Nil
    with "1.prems" show ?thesis by (simp add: process_events_Nil)
  next
    case (Cons ev rest)
    with "1.prems" obtain e1 where
      h: "handle_event strat ev (eng\<lparr>events := rest\<rparr>) = Inr e1"
      and p: "process_events strat e1 = Inr eng'"
      by (auto simp: process_events_Cons split: sum.splits)
    from "1.IH" [OF Cons h p] show ?thesis .
  qed
qed

lemma find_market_event_none:
  "list_all is_signal_or_order q \<Longrightarrow> find_market_event q temp = (None, temp @ q, [])"
  by (induction q temp rule: find_market_event.induct) simp_all

lemma handle_order_event_no_market:
  assumes "list_all is_signal_or_order (events eng)"
  shows "handle_order_event event eng = eng"
  by (simp add: handle_order_event_def find_market_event_none [OF assms])

lemma handle_signal_event_eq:
  "\<exists>os. list_all is_signal_or_order os \<and> handle_signal_event event eng = eng\<lparr>events := events eng @ os\<rparr>"
proof (cases "handle_signal_event event eng = eng")
  case True
  then have "list_all is_signal_or_order [] \<and> handle_signal_event event eng = eng\<lparr>events := events eng @ []\<rparr>"
    by simp
  then show ?thesis by blast
next
  case False
  then obtain oe where "handle_signal_event event eng = put (Order oe) eng"
    by (auto simp: handle_signal_event_def Let_def split: if_splits)
  then have "list_all is_signal_or_order [Order oe] \<and> handle_signal_event event eng = eng\<lparr>events := events eng @ [Order oe]\<rparr>"
    by (simp add: put_def)
  then show ?thesis by blast
qed

lemma process_events_signals_orders:
  "list_all is_signal_or_order (events eng) \<Longrightarrow> process_events strat eng = Inr (eng\<lparr>events := []\<rparr>)"
proof (induction strat eng rule: process_events.induct)
  case (1 strat eng)
  show ?case
  proof (cases "events eng")
    case Nil
    have "eng\<lparr>events := events eng\<rparr> = eng" by simp
    with Nil show ?thesis by (simp add: process_events_Nil)
  next
    case (Cons ev rest)
    from "1.prems" Cons have ev: "is_signal_or_order ev" and rest: "list_all is_signal_or_order rest"
      by simp_all
    show ?thesis
    proof (cases ev)
      case (Signal s)
      obtain os where os: "list_all is_signal_or_order os"
        and h: "handle_signal_event s (eng\<lparr>events := rest\<rparr>) = eng\<lparr>events := rest @ os\<rparr>"
        using handle_signal_event_eq [of s "eng\<lparr>events := rest\<rparr>"] by auto
      have he: "handle_event strat ev (eng\<lparr>events := rest\<rparr>) = Inr (eng\<lparr>events := rest @ os\<rparr>)"
        using Signal h by simp
      have "process_events strat (eng\<lparr>events := rest @ os\<rparr>)
            = Inr ((eng\<lparr>events := rest @ os\<rparr>)\<lparr>events := []\<rparr>)"
        using "1.IH" [OF Cons he] os rest by simp
      then show ?thesis using Cons he by (simp add: process_events_Cons)
    next
      case (Order oe)
      have h: "handle_order_event oe (eng\<lparr>events := rest\<rparr>) = eng\<lparr>events := rest\<rparr>"
        using handle_order_event_no_market [of "eng\<lparr>events := rest\<rparr>" oe] rest by simp
      have he: "handle_event strat ev (eng\<lparr>events := rest\<rparr>) = Inr (eng\<lparr>events := rest\<rparr>)"
        using Order h by simp
      have "process_events strat (eng\<lparr>events := rest\<rparr>)
            = Inr ((eng\<lparr>events := rest\<rparr>)\<lparr>events := []\<rparr>)"
        using "1.IH" [OF Cons he] rest by simp
      then show ?thesis using Cons he by (simp add: process_events_Cons)
    next
      case (Market m)
      with ev show ?thesis by simp
    next
      case (Fill f)
      with ev show ?thesis by simp
    qed
  qed
qed

lemma list_all_signal_events: "list_all is_signal_or_order (map (signal_event_of ts) sgs)"
  by (induction sgs) (simp_all add: signal_event_of_def)

lemma state_of_simps [simp]:
  "state_of (Inl (err, eng)) = eng" "state_of (Inr eng) = eng"
  by (simp_all add: state_of_def)

lemma market_symbol_step_ledger:
  "same_ledger eng (state_of (market_symbol_step strat event eng symb))"
  by (auto simp: market_symbol_step_def same_ledger_def Let_def
        split: option.splits sum.splits prod.splits)

lemma for_each_state:
  fixes body :: "'u BacktestEngine \<Rightarrow> 'a \<Rightarrow> 'u outcome"
  assumes "P s" and "\<And>a x. P a \<Longrightarrow> P (state_of (body a x))"
  shows "P (state_of (for_each body s xs))"
  using assms(1)
proof (induction xs arbitrary: s)
  case Nil
  then show ?case by simp
next
  case (Cons x xs)
  from assms(2) [OF Cons.prems, of x] have p: "P (state_of (body s x))" .
  show ?case
  proof (cases "body s x")
    case (Inl raised)
    with p show ?thesis by (cases raised) simp
  next
    case (Inr s1)
    with p have "P s1" by simp
    from Cons.IH [OF this] Inr show ?thesis by simp
  qed
qed

lemma handle_market_event_ledger:
  "same_ledger eng (state_of (handle_market_event strat event eng))"
  unfolding handle_market_event_def
proof (rule for_each_state [where P = "same_ledger eng"])
  show "same_ledger eng eng" by (simp add: same_ledger_def)
next
  fix a x assume "same_ledger eng a"
  with market_symbol_step_ledger [of a strat event x]
  show "same_ledger eng (state_of (market_symbol_step strat event a x))"
    by (simp add: same_ledger_def)
qed

lemma handle_market_event_signals:
  assumes "handle_market_event strat event eng = Inr eng'"
    and "list_all is_signal_or_order (events eng)"
  shows "list_all is_signal_or_order (events eng')"
proof -
  have f: "for_each (market_symbol_step strat event) eng (get_symbols event) = Inr eng'"
    using assms(1) by (simp add: handle_market_event_def)
  show ?thesis
  proof (rule for_each_preserves [OF f, where P = "\<lambda>e. list_all is_signal_or_order (events e)"])
    show "list_all is_signal_or_order (events eng)" by (rule assms(2))
  next
    fix a x b
    assume s: "market_symbol_step strat event a x = Inr b"
      and p: "list_all is_signal_or_order (events a)"
    from events_market_symbol_step [OF s] obtain sgs where
      "events b = events a @ map (signal_event_of (me_timestamp event)) sgs" by blast
    with p show "list_all is_signal_or_order (events b)"
      by (simp add: list_all_signal_events)
  qed
qed

lemma process_events_market_first:
  assumes "events eng = []"
  shows "process_events strat (put (Market me) eng)
         = (case handle_market_event strat me eng of
              Inl raised \<Rightarrow> Inl raised
            | Inr h \<Rightarrow> Inr (h\<lparr>events := []\<rparr>))"
proof -
  have e: "events (put (Market me) eng) = Market me # []"
    using assms by (simp add: put_def)
  have "eng\<lparr>events := events eng\<rparr> = eng" by simp
  then have undo: "(put (Market me) eng)\<lparr>events := []\<rparr> = eng"
    using assms by (simp add: put_def)
  show ?thesis
  proof (cases "handle_market_event strat me eng")
    case (Inl raised)
    then show ?thesis by (simp add: process_events_Cons [OF e] undo)
  next
    case (Inr h)
    have "list_all is_signal_or_order (events h)"
      using handle_market_event_signals [OF Inr] assms by simp
    from process_events_signals_orders [OF this] Inr
    show ?thesis by (simp add: process_events_Cons [OF e] undo)
  qed
qed

lemma calls_market_symbol_step:
  assumes "map_of (me_data event) symb = Some b"
  shows "calls (state_of (market_symbol_step strat event eng symb))
         = calls eng @ [CallGenerateSignals (me_timestamp event) symb b]"
  using assms
  by (auto simp: market_symbol_step_def Let_def split: sum.splits prod.splits)

lemma calls_for_each_market:
  assumes "\<forall>kv \<in> set kvs. map_of (me_data event) (fst kv) = Some (snd kv)"
  shows "\<exists>rest. calls eng @ map (gen_call (me_timestamp event)) kvs
            = calls (state_of (for_each (market_symbol_step strat event) eng (map fst kvs))) @ rest
          \<and> (\<not> isl (for_each (market_symbol_step strat event) eng (map fst kvs)) \<longrightarrow> rest = [])"
  using assms
proof (induction kvs arbitrary: eng)
  case Nil
  then show ?case by simp
next
  case (Cons kv kvs)
  have k: "map_of (me_data event) (fst kv) = Some (snd kv)" using Cons.prems by simp
  note c = calls_market_symbol_step [OF k, of strat eng]
  show ?case
  proof (cases "market_symbol_step strat event eng (fst kv)")
    case (Inl raised)
    obtain err e1 where r: "raised = (err, e1)" by (cases raised)
    from c Inl r have "calls e1 = calls eng @ [gen_call (me_timestamp event) kv]"
      by (simp add: gen_call_def)
    then show ?thesis using Inl r by simp
  next
    case (Inr e1)
    from c Inr have c1: "calls e1 = calls eng @ [gen_call (me_timestamp event) kv]"
      by (simp add: gen_call_def)
    have "\<forall>kv \<in> set kvs. map_of (me_data event) (fst kv) = Some (snd kv)"
      using Cons.prems by simp
    from Cons.IH [OF this, of e1] obtain rest where
      "calls e1 @ map (gen_call (me_timestamp event)) kvs
         = calls (state_of (for_each (market_symbol_step strat event) e1 (map fst kvs))) @ rest"
      and "\<not> isl (for_each (market_symbol_step strat event) e1 (map fst kvs)) \<longrightarrow> rest = []"
      by blast
    then show ?thesis using Inr c1 by simp
  qed
qed

lemma calls_handle_market_event:
  assumes "distinct (map fst (me_data event))"
  shows "\<exists>rest. calls eng @ map (gen_call (me_timestamp event)) (me_data event)
            = calls (state_of (handle_market_event strat event eng)) @ rest
          \<and> (\<not> isl (handle_market_event strat event eng) \<longrightarrow> rest = [])"
proof -
  have "\<forall>kv \<in> set (me_data event). map_of (me_data event) (fst kv) = Some (snd kv)"
    using assms by simp
  from calls_for_each_market [OF this] show ?thesis
    by (simp add: handle_market_event_def get_symbols_def)
qed

lemma fst_dict_set:
  "fst ` set (dict_set d k v) = insert k (fst ` set d)"
  by (induction d) force+

lemma distinct_dict_set:
  "distinct (map fst d) \<Longrightarrow> distinct (map fst (dict_set d k v))"
  by (induction d) (auto simp: fst_dict_set)

lemma distinct_foldl_dict_set:
  "distinct (map fst d) \<Longrightarrow> distinct (map fst (foldl (\<lambda>md row. dict_set md (f row) (g row)) d rows))"
  by (induction rows arbitrary: d) (simp_all add: distinct_dict_set)

lemma distinct_build_market_data: "distinct (map fst (build_market_data rows))"
  by (simp add: build_market_data_def distinct_foldl_dict_set)

lemma day_calls_eq:
  "day_calls (date, day_data) = map (gen_call date) (build_market_data day_data)"
  by (simp add: day_calls_def gen_call_def)

text \<open>One iteration of the main loop, from an empty queue.\<close>

lemma run_day_eq:
  assumes "events eng = []"
  shows "run_day strat eng (date, day_data)
         = (case handle_market_event strat
                   \<lparr>me_timestamp = date, me_data = build_market_data day_data\<rparr>
                   (eng\<lparr>current_time := Some date\<rparr>) of
              Inl raised \<Rightarrow> Inl raised
            | Inr h \<Rightarrow> Inr (h\<lparr>events := [],
                              portfolio := update_market_value (portfolio eng)
                                             (day_prices day_data) date\<rparr>))"
proof -
  let ?me = "\<lparr>me_timestamp = date, me_data = build_market_data day_data\<rparr>"
  let ?eng1 = "eng\<lparr>current_time := Some date\<rparr>"
  have e1: "events ?eng1 = []" using assms by simp
  note pe = process_events_market_first [OF e1, of strat ?me]
  show ?thesis
  proof (cases "handle_market_event strat ?me ?eng1")
    case (Inl raised)
    then show ?thesis by (simp add: run_day_def Let_def pe)
  next
    case (Inr h)
    from handle_market_event_ledger [of ?eng1 strat ?me] Inr
    have "portfolio h = portfolio eng" by (simp add: same_ledger_def)
    with Inr show ?thesis by (simp add: run_day_def Let_def pe day_prices_def)
  qed
qed

lemma update_market_value_frame:
  "cash (update_market_value p prices ts) = cash p"
  "positions (update_market_value p prices ts) = positions p"
  "length (history (update_market_value p prices ts)) = Suc (length (history p))"
  by (simp_all add: update_market_value_def Let_def)

text \<open>
  What a day does to the state, whether it completes or raises: the ledger's cash and
  positions and the configuration are untouched; the calls made are the day's expected
  calls, or a prefix of them when the day raises; a completed day leaves an empty queue
  and one more snapshot, a day that raises records none.
\<close>

lemma run_day_facts:
  assumes "events eng = []"
  shows "cash (portfolio (state_of (run_day strat eng day))) = cash (portfolio eng)
       \<and> positions (portfolio (state_of (run_day strat eng day))) = positions (portfolio eng)
       \<and> config (state_of (run_day strat eng day)) = config eng
       \<and> (\<exists>rest. calls eng @ day_calls day = calls (state_of (run_day strat eng day)) @ rest
             \<and> (\<not> isl (run_day strat eng day) \<longrightarrow> rest = []))
       \<and> length (history (portfolio (state_of (run_day strat eng day))))
           = length (history (portfolio eng)) + (if isl (run_day strat eng day) then 0 else 1)
       \<and> (\<not> isl (run_day strat eng day) \<longrightarrow> events (state_of (run_day strat eng day)) = [])"
proof -
  obtain date day_data where day: "day = (date, day_data)" by (cases day)
  let ?me = "\<lparr>me_timestamp = date, me_data = build_market_data day_data\<rparr>"
  let ?eng1 = "eng\<lparr>current_time := Some date\<rparr>"
  note r = run_day_eq [OF assms, of strat date day_data]
  note l = handle_market_event_ledger [of ?eng1 strat ?me]
  have d: "distinct (map fst (me_data ?me))" by (simp add: distinct_build_market_data)
  from calls_handle_market_event [OF d, of ?eng1 strat] obtain rest where
    c: "calls eng @ day_calls day = calls (state_of (handle_market_event strat ?me ?eng1)) @ rest"
    and c0: "\<not> isl (handle_market_event strat ?me ?eng1) \<longrightarrow> rest = []"
    by (auto simp: day day_calls_eq)
  show ?thesis
  proof (cases "handle_market_event strat ?me ?eng1")
    case (Inl raised)
    obtain err h where "raised = (err, h)" by (cases raised)
    with Inl l c show ?thesis
      by (simp add: day r same_ledger_def)
  next
    case (Inr h)
    with l c c0 show ?thesis
      by (simp add: day r same_ledger_def update_market_value_frame)
  qed
qed

lemma run_loop_facts:
  assumes "events eng = []"
  shows "cash (portfolio (state_of (for_each (run_day strat) eng days))) = cash (portfolio eng)
       \<and> positions (portfolio (state_of (for_each (run_day strat) eng days))) = positions (portfolio eng)
       \<and> config (state_of (for_each (run_day strat) eng days)) = config eng
       \<and> (\<exists>rest. calls eng @ concat (map day_calls days)
                    = calls (state_of (for_each (run_day strat) eng days)) @ rest
             \<and> (\<not> isl (for_each (run_day strat) eng days) \<longrightarrow> rest = []))
       \<and> length (history (portfolio (state_of (for_each (run_day strat) eng days))))
           \<le> length (history (portfolio eng)) + length days
       \<and> (\<not> isl (for_each (run_day strat) eng days) \<longrightarrow>
             events (state_of (for_each (run_day strat) eng days)) = []
             \<and> length (history (portfolio (state_of (for_each (run_day strat) eng days))))
                 = length (history (portfolio eng)) + length days)"
  using assms
proof (induction days arbitrary: eng)
  case Nil
  then show ?case by simp
next
  case (Cons day days)
  from run_day_facts [OF Cons.prems, of strat day] obtain rest1 where
    f: "cash (portfolio (state_of (run_day strat eng day))) = cash (portfolio eng)"
       "positions (portfolio (state_of (run_day strat eng day))) = positions (portfolio eng)"
       "config (state_of (run_day strat eng day)) = config eng"
       "calls eng @ day_calls day = calls (state_of (run_day strat eng day)) @ rest1"
       "\<not> isl (run_day strat eng day) \<longrightarrow> rest1 = []"
       "length (history (portfolio (state_of (run_day strat eng day))))
           = length (history (portfolio eng)) + (if isl (run_day strat eng day) then 0 else 1)"
       "\<not> isl (run_day strat eng day) \<longrightarrow> events (state_of (run_day strat eng day)) = []"
    by blast
  show ?case
  proof (cases "run_day strat eng day")
    case (Inl raised)
    obtain err e1 where r: "raised = (err, e1)" by (cases raised)
    have "calls eng @ concat (map day_calls (day # days)) = calls e1 @ (rest1 @ concat (map day_calls days))"
      using f(4) Inl r by simp
    then have "\<exists>rest. calls eng @ concat (map day_calls (day # days)) = calls e1 @ rest"
      by blast
    then show ?thesis using f(1,2,3,6) Inl r by simp
  next
    case (Inr e1)
    with f have e1: "events e1 = []" and c1: "calls e1 = calls eng @ day_calls day" by simp_all
    from Cons.IH [OF e1] obtain rest where
      i: "cash (portfolio (state_of (for_each (run_day strat) e1 days))) = cash (portfolio e1)"
         "positions (portfolio (state_of (for_each (run_day strat) e1 days))) = positions (portfolio e1)"
         "config (state_of (for_each (run_day strat) e1 days)) = config e1"
         "calls e1 @ concat (map day_calls days) = calls (state_of (for_each (run_day strat) e1 days)) @ rest"
         "\<not> isl (for_each (run_day strat) e1 days) \<longrightarrow> rest = []"
         "length (history (portfolio (state_of (for_each (run_day strat) e1 days))))
            \<le> length (history (portfolio e1)) + length days"
         "\<not> isl (for_each (run_day strat) e1 days) \<longrightarrow>
             events (state_of (for_each (run_day strat) e1 days)) = []
             \<and> length (history (portfolio (state_of (for_each (run_day strat) e1 days))))
                 = length (history (portfolio e1)) + length days"
      by blast
    have "calls eng @ concat (map day_calls (day # days))
          = calls (state_of (for_each (run_day strat) e1 days)) @ rest"
      using i(4) c1 by simp
    then have "\<exists>rest. calls eng @ concat (map day_calls (day # days))
                  = calls (state_of (for_each (run_day strat) e1 days)) @ rest
                \<and> (\<not> isl (for_each (run_day strat) e1 days) \<longrightarrow> rest = [])"
      using i(5) by blast
    then show ?thesis using f(1,2,3,6) i(1,2,3,6,7) Inr by simp
  qed
qed

lemma never_raises_for_each_market:
  assumes "never_raises strat"
    and "\<forall>symb \<in> set syms. map_of (me_data event) symb \<noteq> None"
  shows "\<not> isl (for_each (market_symbol_step strat event) eng syms)"
  using assms(2)
proof (induction syms arbitrary: eng)
  case Nil
  then show ?case by simp
next
  case (Cons symb syms)
  from Cons.prems obtain b where b: "map_of (me_data event) symb = Some b" by auto
  from assms(1) have "\<not> isl (m_generate_signals strat (strategy eng) (me_timestamp event) symb b)"
    by (simp add: never_raises_def)
  then obtain sgs s' where
    "m_generate_signals strat (strategy eng) (me_timestamp event) symb b = Inr (sgs, s')"
    by (cases "m_generate_signals strat (strategy eng) (me_timestamp event) symb b") auto
  then obtain e1 where "market_symbol_step strat event eng symb = Inr e1"
    using b by (simp add: market_symbol_step_def Let_def)
  moreover have "\<not> isl (for_each (market_symbol_step strat event) e1 syms)"
    using Cons by simp
  ultimately show ?case by simp
qed

lemma never_raises_handle_market_event:
  assumes "never_raises strat"
  shows "\<not> isl (handle_market_event strat event eng)"
proof -
  have "\<forall>symb \<in> set (get_symbols event). map_of (me_data event) symb \<noteq> None"
    by (auto simp: get_symbols_def map_of_eq_None_iff)
  from never_raises_for_each_market [OF assms this] show ?thesis
    by (simp add: handle_market_event_def)
qed

lemma never_raises_run_day:
  assumes "never_raises strat" and "events eng = []"
  shows "\<not> isl (run_day strat eng day)"
proof -
  obtain date day_data where day: "day = (date, day_data)" by (cases day)
  have "\<not> isl (handle_market_event strat
                 \<lparr>me_timestamp = date, me_data = build_market_data day_data\<rparr>
                 (eng\<lparr>current_time := Some date\<rparr>))"
    by (rule never_raises_handle_market_event [OF assms(1)])
  then obtain h where "handle_market_event strat
                 \<lparr>me_timestamp = date, me_data = build_market_data day_data\<rparr>
                 (eng\<lparr>current_time := Some date\<rparr>) = Inr h"
    by (cases "handle_market_event strat
                 \<lparr>me_timestamp = date, me_data = build_market_data day_data\<rparr>
                 (eng\<lparr>current_time := Some date\<rparr>)") simp_all
  then show ?thesis
    by (simp add: day run_day_eq [OF assms(2)])
qed

lemma never_raises_loop:
  assumes "never_raises strat" and "events eng = []"
  shows "\<not> isl (for_each (run_day strat) eng days)"
  using assms(2)
proof (induction days arbitrary: eng)
  case Nil
  then show ?case by simp
next
  case (Cons day days)
  have "\<not> isl (run_day strat eng day)"
    by (rule never_raises_run_day [OF assms(1) Cons.prems])
  then obtain e1 where r: "run_day strat eng day = Inr e1"
    by (cases "run_day strat eng day") simp_all
  from run_day_facts [OF Cons.prems, of strat day] r have "events e1 = []" by simp
  from Cons.IH [OF this] r show ?case by simp
qed

lemma run_eq:
  assumes "rows \<noteq> []"
  shows "run strat eng syms (Inr rows)
         = (case m_initialize strat (set_data (strategy eng) rows) of
              Inl (err, s') \<Rightarrow> Inl (err, loop_start strat eng syms rows s')
            | Inr s' \<Rightarrow> for_each (run_day strat) (loop_start strat eng syms rows s')
                         (groupby_date rows))"
  using assms
  by (simp add: run_def load_data_def Let_def loop_start_def split: sum.splits prod.splits)

lemma run_no_data:
  "run strat eng syms (Inl err) = Inl (err, eng\<lparr>symbols := syms\<rparr>)"
  "run strat eng syms (Inr [])
     = Inl (ValueError ''No market data loaded'', eng\<lparr>symbols := syms, market_data := Some []\<rparr>)"
  by (simp_all add: run_def load_data_def Let_def)

lemma run_facts:
  assumes "events eng = []" and "rows \<noteq> []"
  shows "cash (portfolio (state_of (run strat eng syms (Inr rows)))) = cash (portfolio eng)
       \<and> positions (portfolio (state_of (run strat eng syms (Inr rows)))) = positions (portfolio eng)
       \<and> config (state_of (run strat eng syms (Inr rows))) = config eng
       \<and> (\<exists>rest. calls eng @ run_calls rows = calls (state_of (run strat eng syms (Inr rows))) @ rest
             \<and> (\<not> isl (run strat eng syms (Inr rows)) \<longrightarrow> rest = []))
       \<and> length (history (portfolio (state_of (run strat eng syms (Inr rows)))))
           \<le> length (history (portfolio eng)) + length (groupby_date rows)
       \<and> (\<not> isl (run strat eng syms (Inr rows)) \<longrightarrow>
             events (state_of (run strat eng syms (Inr rows))) = []
             \<and> length (history (portfolio (state_of (run strat eng syms (Inr rows)))))
                 = length (history (portfolio eng)) + length (groupby_date rows))"
proof (cases "m_initialize strat (set_data (strategy eng) rows)")
  case (Inl raised)
  obtain err s' where "raised = (err, s')" by (cases raised)
  with Inl show ?thesis
    by (simp add: run_eq [OF assms(2)] loop_start_def run_calls_def)
next
  case (Inr s')
  let ?e0 = "loop_start strat eng syms rows s'"
  have e0: "events ?e0 = []" using assms(1) by (simp add: loop_start_def)
  from run_loop_facts [OF e0, of strat "groupby_date rows"] obtain rest where
    i: "cash (portfolio (state_of (for_each (run_day strat) ?e0 (groupby_date rows)))) = cash (portfolio ?e0)"
       "positions (portfolio (state_of (for_each (run_day strat) ?e0 (groupby_date rows)))) = positions (portfolio ?e0)"
       "config (state_of (for_each (run_day strat) ?e0 (groupby_date rows))) = config ?e0"
       "calls ?e0 @ concat (map day_calls (groupby_date rows))
          = calls (state_of (for_each (run_day strat) ?e0 (groupby_date rows))) @ rest"
       "\<not> isl (for_each (run_day strat) ?e0 (groupby_date rows)) \<longrightarrow> rest = []"
       "length (history (portfolio (state_of (for_each (run_day strat) ?e0 (groupby_date rows)))))
           \<le> length (history (portfolio ?e0)) + length (groupby_date rows)"
       "\<not> isl (for_each (run_day strat) ?e0 (groupby_date rows)) \<longrightarrow>
             events (state_of (for_each (run_day strat) ?e0 (groupby_date rows))) = []
             \<and> length (history (portfolio (state_of (for_each (run_day strat) ?e0 (groupby_date rows)))))
                 = length (history (portfolio ?e0)) + length (groupby_date rows)"
    by blast
  have r: "run strat eng syms (Inr rows) = for_each (run_day strat) ?e0 (groupby_date rows)"
    using Inr by (simp add: run_eq [OF assms(2)])
  have c: "calls eng @ run_calls rows = calls ?e0 @ concat (map day_calls (groupby_date rows))"
    by (simp add: run_calls_def loop_start_def)
  have p: "portfolio ?e0 = portfolio eng" "config ?e0 = config eng"
    by (simp_all add: loop_start_def)
  show ?thesis
    unfolding r using i c p by auto
qed

lemma never_raises_run:
  assumes "never_raises strat" and "events eng = []" and "rows \<noteq> []"
  shows "\<not> isl (run strat eng syms (Inr rows))"
proof -
  have "\<not> isl (m_initialize strat (set_data (strategy eng) rows))"
    using assms(1) by (simp add: never_raises_def)
  then obtain s' where i: "m_initialize strat (set_data (strategy eng) rows) = Inr s'"
    by (cases "m_initialize strat (set_data (strategy eng) rows)") simp_all
  have "events (loop_start strat eng syms rows s') = []"
    using assms(2) by (simp add: loop_start_def)
  from never_raises_loop [OF assms(1) this] i show ?thesis
    by (simp add: run_eq [OF assms(3)])
qed

lemma never_raises_buy_strategy: "never_raises buy_strategy"
  by (simp add: never_raises_def buy_strategy_def)


lemma run_day_portfolio:
  assumes "events eng = []" and "run_day strat eng (date, day_data) = Inr e1"
  shows "portfolio e1 = update_market_value (portfolio eng) (day_prices day_data) date"
  using assms(2) by (auto simp: run_day_eq [OF assms(1)] split: sum.splits)






section \<open>Runs under two configurations\<close>

lemma for_each_rel:
  assumes "R s t"
    and "\<And>a b x. R a b \<Longrightarrow> rel_sum (rel_prod (=) Q) R (body a x) (body' b x)"
  shows "rel_sum (rel_prod (=) Q) R (for_each body s xs) (for_each body' t xs)"
  using assms(1)
proof (induction xs arbitrary: s t)
  case Nil
  then show ?case by simp
next
  case (Cons x xs)
  from assms(2) [OF Cons.prems, of x]
  have r: "rel_sum (rel_prod (=) Q) R (body s x) (body' t x)" .
  show ?case
  proof (cases "body s x")
    case l: (Inl u)
    with r obtain v where "body' t x = Inl v" by (cases "body' t x") simp_all
    with r l show ?thesis by simp
  next
    case l: (Inr u)
    with r obtain v where v: "body' t x = Inr v" by (cases "body' t x") simp_all
    with r l have "R u v" by simp
    from Cons.IH [OF this] l v show ?thesis by simp
  qed
qed

lemma market_symbol_step_rel:
  assumes "same_strategy a b"
  shows "rel_sum (rel_prod (=) same_strategy) same_strategy
           (market_symbol_step strat event a x) (market_symbol_step strat event b x)"
  using assms
  by (auto simp: market_symbol_step_def Let_def same_strategy_def
        split: option.splits sum.splits prod.splits)

lemma handle_market_event_rel:
  assumes "same_strategy a b"
  shows "rel_sum (rel_prod (=) same_strategy) same_strategy
           (handle_market_event strat event a) (handle_market_event strat event b)"
  unfolding handle_market_event_def
  by (rule for_each_rel [where R = same_strategy and Q = same_strategy, OF assms])
     (rule market_symbol_step_rel)

lemma run_day_rel:
  assumes "same_progress_idle a b"
  shows "rel_sum (rel_prod (=) same_progress) same_progress_idle
           (run_day strat a day) (run_day strat b day)"
proof -
  obtain date day_data where day: "day = (date, day_data)" by (cases day)
  let ?me = "\<lparr>me_timestamp = date, me_data = build_market_data day_data\<rparr>"
  let ?a1 = "a\<lparr>current_time := Some date\<rparr>"
  let ?b1 = "b\<lparr>current_time := Some date\<rparr>"
  from assms have ea: "events a = []" and eb: "events b = []"
    and l: "length (history (portfolio a)) = length (history (portfolio b))"
    and s: "same_strategy ?a1 ?b1"
    by (simp_all add: same_progress_idle_def same_progress_def same_strategy_def)
  note la = handle_market_event_ledger [of ?a1 strat ?me]
  note lb = handle_market_event_ledger [of ?b1 strat ?me]
  note r = handle_market_event_rel [OF s, of strat ?me]
  show ?thesis
  proof (cases "handle_market_event strat ?me ?a1")
    case ha: (Inl x)
    with r obtain y where hb: "handle_market_event strat ?me ?b1 = Inl y"
      by (cases "handle_market_event strat ?me ?b1") simp_all
    obtain e h where x: "x = (e, h)" by (cases x)
    obtain e' h' where y: "y = (e', h')" by (cases y)
    from r ha hb la lb l x y show ?thesis
      by (simp add: day run_day_eq [OF ea] run_day_eq [OF eb] same_progress_def same_ledger_def)
  next
    case ha: (Inr h)
    with r obtain h' where hb: "handle_market_event strat ?me ?b1 = Inr h'"
      by (cases "handle_market_event strat ?me ?b1") simp_all
    from r ha hb l show ?thesis
      by (simp add: day run_day_eq [OF ea] run_day_eq [OF eb] same_progress_idle_def
            same_progress_def same_strategy_def update_market_value_frame)
  qed
qed

lemma run_rel:
  assumes "same_progress_idle a b"
  shows "rel_sum (rel_prod (=) same_progress) same_progress_idle
           (run strat a syms loaded) (run strat b syms loaded)"
proof (cases loaded)
  case (Inl err)
  with assms show ?thesis
    by (simp add: run_no_data same_progress_idle_def same_progress_def same_strategy_def)
next
  case (Inr rows)
  show ?thesis
  proof (cases "rows = []")
    case True
    with assms Inr show ?thesis
      by (simp add: run_no_data same_progress_idle_def same_progress_def same_strategy_def)
  next
    case False
    from assms have st: "strategy a = strategy b"
      by (simp add: same_progress_idle_def same_progress_def same_strategy_def)
    have ls: "\<And>s'. same_progress_idle (loop_start strat a syms rows s') (loop_start strat b syms rows s')"
      using assms
      by (simp add: same_progress_idle_def same_progress_def same_strategy_def loop_start_def)
    show ?thesis
    proof (cases "m_initialize strat (set_data (strategy b) rows)")
      case (Inl raised)
      obtain err s' where "raised = (err, s')" by (cases raised)
      with Inl ls [of s'] show ?thesis
        by (simp add: Inr run_eq [OF False] st same_progress_idle_def)
    next
      case i: (Inr s')
      have "rel_sum (rel_prod (=) same_progress) same_progress_idle
              (for_each (run_day strat) (loop_start strat a syms rows s') (groupby_date rows))
              (for_each (run_day strat) (loop_start strat b syms rows s') (groupby_date rows))"
        by (rule for_each_rel [where R = same_progress_idle and Q = same_progress, OF ls])
           (rule run_day_rel)
      with i show ?thesis by (simp add: Inr run_eq [OF False] st)
    qed
  qed
qed

lemma raised_and_snapshots_rel:
  assumes "rel_sum (rel_prod (=) same_progress) same_progress_idle r r'"
  shows "raised_and_snapshots r = raised_and_snapshots r'"
  using assms
  by (cases r; cases r')
     (auto simp: raised_and_snapshots_def same_progress_idle_def same_progress_def)

section \<open>Execution and ledger: scenario A\<close>

text \<open>
  Claim C2. With commission rate 0.01, the minimum commission 1 and zero slippage, a buy
  order of 10 shares executed against a market event whose bar for the symbol closes at 100
  (whatever the other bars and the other fields of the bar are) yields the fill with fill
  price 100 and commission 10; applying that fill to any portfolio that holds cash 100000
  and no position in the symbol leaves cash 98990 and position quantity 10.
\<close>

theorem scenario_A_buy_10_at_100:
  assumes "cash p = 100000" and "get_position p s = 0"
  shows "execute_order \<lparr>eh_commission = 1 / 100, eh_slippage = 0\<rparr>
           \<lparr>oe_timestamp = t, oe_symbol = s, oe_order_type = MARKET, oe_quantity = 10,
            oe_direction = BUY\<rparr>
           \<lparr>me_timestamp = d, me_data = dict_set bars s (b\<lparr>bar_close := 100\<rparr>)\<rparr>
         = Some \<lparr>fe_timestamp = d, fe_symbol = s, fe_quantity = 10, fe_direction = BUY,
                 fe_fill_price = 100, fe_commission = 10, fe_slippage = 0\<rparr>
       \<and> cash (execute_fill p \<lparr>fe_timestamp = d, fe_symbol = s, fe_quantity = 10,
                 fe_direction = BUY, fe_fill_price = 100, fe_commission = 10,
                 fe_slippage = 0\<rparr>) = 98990
       \<and> get_position (execute_fill p \<lparr>fe_timestamp = d, fe_symbol = s, fe_quantity = 10,
                 fe_direction = BUY, fe_fill_price = 100, fe_commission = 10,
                 fe_slippage = 0\<rparr>) s = 10"
  using assms
  by (simp add: execute_order_def get_price_dict_set execute_fill_def get_position_def
        dict_get_positions_add)

theorem scenario_A_buy_10_at_100_witness:
  "cash (Portfolio_init 100000 (1 / 100)) = 100000
   \<and> get_position (Portfolio_init 100000 (1 / 100)) ''AAPL'' = 0
   \<and> execute_order \<lparr>eh_commission = 1 / 100, eh_slippage = 0\<rparr>
           \<lparr>oe_timestamp = 1, oe_symbol = ''AAPL'', oe_order_type = MARKET, oe_quantity = 10,
            oe_direction = BUY\<rparr>
           \<lparr>me_timestamp = 1,
            me_data = [(''AAPL'', \<lparr>bar_open = 99, bar_high = 101, bar_low = 98,
                                  bar_close = 100, bar_volume = 5000\<rparr>)]\<rparr>
         = Some \<lparr>fe_timestamp = 1, fe_symbol = ''AAPL'', fe_quantity = 10, fe_direction = BUY,
                 fe_fill_price = 100, fe_commission = 10, fe_slippage = 0\<rparr>
   \<and> cash (execute_fill (Portfolio_init 100000 (1 / 100))
        \<lparr>fe_timestamp = 1, fe_symbol = ''AAPL'', fe_quantity = 10, fe_direction = BUY,
         fe_fill_price = 100, fe_commission = 10, fe_slippage = 0\<rparr>) = 98990
   \<and> positions (execute_fill (Portfolio_init 100000 (1 / 100))
        \<lparr>fe_timestamp = 1, fe_symbol = ''AAPL'', fe_quantity = 10, fe_direction = BUY,
         fe_fill_price = 100, fe_commission = 10, fe_slippage = 0\<rparr>) = [(''AAPL'', 10)]"
proof -
  have c: "cash (Portfolio_init 100000 (1 / 100)) = 100000"
    by (simp add: Portfolio_init_def)
  have g: "get_position (Portfolio_init 100000 (1 / 100)) ''AAPL'' = 0"
    by (simp add: Portfolio_init_def get_position_def dict_get_def)
  have p: "positions (execute_fill (Portfolio_init 100000 (1 / 100))
        \<lparr>fe_timestamp = 1, fe_symbol = ''AAPL'', fe_quantity = 10, fe_direction = BUY,
         fe_fill_price = 100, fe_commission = 10, fe_slippage = 0\<rparr>) = [(''AAPL'', 10)]"
    by (simp add: Portfolio_init_def execute_fill_def positions_add_def defaultdict_getitem_def)
  show ?thesis
    using scenario_A_buy_10_at_100 [where t = 1 and d = 1 and bars = "[]"
        and b = "\<lparr>bar_open = 99, bar_high = 101, bar_low = 98, bar_close = 100,
                  bar_volume = 5000\<rparr>", OF c g] c g p
    by simp
qed

section \<open>Look-ahead (claim C8)\<close>


lemma groupby_three_rows:
  "groupby_date [aapl_row2, aapl_row, msft_row] = [(1, [aapl_row, msft_row]), (2, [aapl_row2])]"
  by (simp add: groupby_date_def aapl_row_def aapl_row2_def msft_row_def)









section \<open>Orders during a run (claim C1)\<close>

text \<open>
  In \<^verbatim>\<open>_handle_order_event\<close> the market event is looked for in the queue. When an order is
  handled, the day's market event has already been taken from the queue by
  \<^verbatim>\<open>_process_events\<close>, and the queue holds signals and orders only: the handler finds
  no market event and returns without a fill. The lemmas \<open>handle_order_event_no_market\<close>,
  \<open>process_events_market_first\<close> and \<open>run_facts\<close> above state this for every strategy and
  every data set: cash and positions at the end of a run, or when it raises, are those at
  its start.
\<close>

lemma build_aapl: "build_market_data [aapl_row] = [(''AAPL'', aapl_bar)]"
  by (simp add: build_market_data_def aapl_row_def aapl_bar_def bar_of_row_def)

lemma groupby_aapl: "groupby_date [aapl_row] = [(1, [aapl_row])]"
  by (simp add: groupby_date_def aapl_row_def)

lemma c1_market:
  "map_sum id events (handle_market_event buy_strategy aapl_market_event
             (BacktestEngine_init default_config fresh_strategy)) = Inr [Signal aapl_signal]"
  by (simp add: handle_market_event_def get_symbols_def aapl_market_event_def
        market_symbol_step_def buy_strategy_def BacktestEngine_init_def signal_event_of_def
        aapl_signal_def aapl_bar_def)

lemma c1_signal:
  "events (handle_signal_event aapl_signal (BacktestEngine_init default_config fresh_strategy))
     = [Order aapl_order]"
  by (simp add: handle_signal_event_def Let_def aapl_signal_def BacktestEngine_init_def
        default_config_def Portfolio_init_def get_position_def dict_get_def put_def aapl_order_def)

lemma c1_afford:
  "fst (can_afford (portfolio (BacktestEngine_init default_config fresh_strategy)) aapl_order 100)"
  by (simp add: can_afford_def Let_def aapl_order_def BacktestEngine_init_def default_config_def
        Portfolio_init_def)

lemma c1_fill:
  "execute_order (execution_handler (BacktestEngine_init default_config fresh_strategy))
     aapl_order aapl_market_event
   = Some \<lparr>fe_timestamp = 1, fe_symbol = ''AAPL'', fe_quantity = 100, fe_direction = BUY,
           fe_fill_price = 10005 / 100, fe_commission = 10005 / 1000, fe_slippage = 5 / 10000\<rparr>"
  by (simp add: execute_order_def get_price_def aapl_market_event_def aapl_bar_def aapl_order_def
        BacktestEngine_init_def default_config_def Let_def)

lemma c1_run:
  "map_sum id portfolio
     (run buy_strategy (BacktestEngine_init default_config fresh_strategy) [''AAPL''] (Inr [aapl_row]))
   = Inr \<lparr>initial_capital = 100000, pf_commission = 1 / 1000, cash = 100000, positions = [],
          portfolio_value = 100000,
          history = [\<lparr>snap_timestamp = 1, snap_cash = 100000, snap_position_value = 0,
                      snap_total_value = 100000, snap_positions = []\<rparr>]\<rparr>"
proof -
  let ?e = "BacktestEngine_init default_config fresh_strategy :: unit BacktestEngine"
  let ?eng0 = "loop_start buy_strategy ?e [''AAPL''] [aapl_row] (set_data (strategy ?e) [aapl_row])"
  have e0: "events ?eng0 = []" by (simp add: BacktestEngine_init_def loop_start_def)
  have r: "run buy_strategy ?e [''AAPL''] (Inr [aapl_row])
           = (case run_day buy_strategy ?eng0 (1, [aapl_row]) of
                Inl raised \<Rightarrow> Inl raised | Inr e1 \<Rightarrow> Inr e1)"
    by (simp add: run_eq groupby_aapl buy_strategy_def split: sum.splits)
  have "\<not> isl (run_day buy_strategy ?eng0 (1, [aapl_row]))"
    by (rule never_raises_run_day [OF never_raises_buy_strategy e0])
  then obtain e1 where d: "run_day buy_strategy ?eng0 (1, [aapl_row]) = Inr e1"
    by (cases "run_day buy_strategy ?eng0 (1, [aapl_row])") simp_all
  have p: "portfolio e1 = update_market_value (portfolio ?eng0) (day_prices [aapl_row]) 1"
    by (rule run_day_portfolio [OF e0 d])
  have q: "update_market_value (portfolio ?eng0) (day_prices [aapl_row]) 1
           = \<lparr>initial_capital = 100000, pf_commission = 1 / 1000, cash = 100000, positions = [],
              portfolio_value = 100000,
              history = [\<lparr>snap_timestamp = 1, snap_cash = 100000, snap_position_value = 0,
                          snap_total_value = 100000, snap_positions = []\<rparr>]\<rparr>"
    by (simp add: day_prices_def build_aapl update_market_value_def Let_def loop_start_def
          BacktestEngine_init_def Portfolio_init_def default_config_def)
  have "map_sum id portfolio (run buy_strategy ?e [''AAPL''] (Inr [aapl_row])) = Inr (portfolio e1)"
    by (simp add: r d)
  then show ?thesis by (simp only: p q)
qed

text \<open>
  Claim C1, evaluated at a failing input: default configuration, one day with one bar
  (AAPL closing at 100), a strategy that answers the bar with a buy signal at 100. The
  market event yields the signal; the router turns the signal into a buy order of 100
  shares; the portfolio can afford it; the execution handler, given the order and the day's
  market event, would fill it at 100.05. Yet the run ends with cash 100000, no position, and
  a snapshot of total value 100000: no fill was produced or applied.
\<close>

theorem affordable_order_is_never_filled:
  "map_sum id events (handle_market_event buy_strategy aapl_market_event
             (BacktestEngine_init default_config fresh_strategy)) = Inr [Signal aapl_signal]
   \<and> events (handle_signal_event aapl_signal (BacktestEngine_init default_config fresh_strategy))
       = [Order aapl_order]
   \<and> fst (can_afford (portfolio (BacktestEngine_init default_config fresh_strategy)) aapl_order 100)
   \<and> execute_order (execution_handler (BacktestEngine_init default_config fresh_strategy))
       aapl_order aapl_market_event
     = Some \<lparr>fe_timestamp = 1, fe_symbol = ''AAPL'', fe_quantity = 100, fe_direction = BUY,
             fe_fill_price = 10005 / 100, fe_commission = 10005 / 1000, fe_slippage = 5 / 10000\<rparr>
   \<and> map_sum id portfolio
       (run buy_strategy (BacktestEngine_init default_config fresh_strategy) [''AAPL''] (Inr [aapl_row]))
     = Inr \<lparr>initial_capital = 100000, pf_commission = 1 / 1000, cash = 100000, positions = [],
            portfolio_value = 100000,
            history = [\<lparr>snap_timestamp = 1, snap_cash = 100000, snap_position_value = 0,
                        snap_total_value = 100000, snap_positions = []\<rparr>]\<rparr>"
  using c1_market c1_signal c1_afford c1_fill c1_run by simp

section \<open>Fill handling and strategy callbacks (claim C10)\<close>




section \<open>Affordability check (claim C5)\<close>

text \<open>
  The answer of \<^verbatim>\<open>can_afford\<close> is the one the specification gives, and the call changes
  neither the cash nor any quantity that \<^verbatim>\<open>get_position\<close> reports; for a buy order, or a
  sell order whose symbol is a key of the ledger, the portfolio is unchanged altogether.
\<close>

lemma can_afford_answer:
  "fst (can_afford p order current_price)
   = (if oe_direction order = BUY
      then cash p \<ge> oe_quantity order * current_price * (1 + pf_commission p)
      else get_position p (oe_symbol order) \<ge> oe_quantity order)"
  by (simp add: can_afford_def Let_def defaultdict_getitem_def get_position_def dict_get_def
        split: option.splits)

lemma can_afford_frame:
  "cash (snd (can_afford p order current_price)) = cash p
   \<and> get_position (snd (can_afford p order current_price)) s = get_position p s
   \<and> (oe_direction order = BUY \<or> oe_symbol order \<in> fst ` set (positions p)
        \<longrightarrow> snd (can_afford p order current_price) = p)"
proof (cases "oe_direction order = BUY")
  case True
  then show ?thesis by (simp add: can_afford_def Let_def)
next
  case False
  show ?thesis
  proof (cases "map_of (positions p) (oe_symbol order)")
    case None
    then have "oe_symbol order \<notin> fst ` set (positions p)"
      by (simp add: map_of_eq_None_iff)
    with None False show ?thesis
      by (auto simp add: can_afford_def defaultdict_getitem_def get_position_def dict_get_def
            map_add_def simp del: map_of_eq_None_iff split: option.splits)
  next
    case (Some v)
    with False show ?thesis
      by (simp add: can_afford_def defaultdict_getitem_def)
  qed
qed

text \<open>
  Claim C5, evaluated at a failing input: a sell order for a symbol that is absent from the
  ledger of a new portfolio. The answer is false, as specified, but the read of
  \<^verbatim>\<open>self.positions[order.symbol]\<close> on the \<^verbatim>\<open>defaultdict\<close> has inserted the symbol with
  quantity 0: the set of keys of the positions map is empty before the call and holds the
  symbol after it. (\<^verbatim>\<open>get_position\<close> reads with \<^verbatim>\<open>.get\<close> and inserts nothing.)
\<close>

theorem can_afford_inserts_absent_symbol:
  "can_afford (Portfolio_init 100000 (1 / 1000)) aapl_sell_order 100
   = (False, (Portfolio_init 100000 (1 / 1000))\<lparr>positions := [(''AAPL'', 0)]\<rparr>)
   \<and> map fst (positions (Portfolio_init 100000 (1 / 1000))) = []
   \<and> map fst (positions (snd (can_afford (Portfolio_init 100000 (1 / 1000)) aapl_sell_order 100)))
     = [''AAPL'']"
  by (simp add: can_afford_def defaultdict_getitem_def Portfolio_init_def aapl_sell_order_def)

section \<open>Minimum commission (claim C6)\<close>

text \<open>
  Claim C6, evaluated at a failing input: the configuration sets \<^verbatim>\<open>min_commission\<close> to 5;
  an order of one share is executed at the close 100 with the default rates. The fill
  carries the commission 1, the constant written in \<^verbatim>\<open>execute_order\<close>; the claim's formula
  with the configured minimum gives 5. The engine passes only the commission and slippage
  rates to the execution handler; no code reads \<^verbatim>\<open>min_commission\<close>.
\<close>

theorem configured_minimum_commission_ignored:
  "min_commission (backtest min5_config) = 5
   \<and> execute_order (execution_handler (BacktestEngine_init min5_config fresh_strategy))
        one_share_order aapl_market_event
     = Some \<lparr>fe_timestamp = 1, fe_symbol = ''AAPL'', fe_quantity = 1, fe_direction = BUY,
             fe_fill_price = 10005 / 100, fe_commission = 1, fe_slippage = 5 / 10000\<rparr>
   \<and> max (\<bar>1 * (10005 / 100)\<bar> * bc_commission (backtest min5_config))
          (min_commission (backtest min5_config)) = (5 :: real)"
  by (simp add: min5_config_def default_config_def execute_order_def get_price_def
        aapl_market_event_def aapl_bar_def one_share_order_def BacktestEngine_init_def Let_def)

section \<open>Signal routing (claim C4)\<close>

lemma short_position: "get_position (portfolio short_engine) ''AAPL'' = - 10"
  by (simp add: short_engine_def get_position_def execute_fill_def aapl_short_fill_def
        dict_get_positions_add dict_get_Nil Portfolio_init_def)

lemma short_engine_order:
  "events (handle_signal_event aapl_signal short_engine) = [Order aapl_order]"
  using short_position
  by (simp add: handle_signal_event_def Let_def aapl_signal_def put_def aapl_order_def)
     (simp add: short_engine_def BacktestEngine_init_def default_config_def execute_fill_def
        Portfolio_init_def aapl_short_fill_def)

text \<open>
  Claim C4 fails in its second half. The portfolio is short 10 shares, its value is 100000
  and the position fraction is 0.1; a buy signal at price 100 arrives. The router emits a
  buy order of the target quantity 100, not of the 10 shares that would close the short;
  filled, that order takes the position from -10 to 90, past flat.
\<close>

theorem buy_on_short_flips_past_flat:
  "se_signal_type aapl_signal = 1
   \<and> get_position (portfolio short_engine) ''AAPL'' = - 10
   \<and> events (handle_signal_event aapl_signal short_engine) = [Order aapl_order]
   \<and> oe_direction aapl_order = BUY
   \<and> oe_quantity aapl_order = 100
   \<and> oe_quantity aapl_order \<noteq> \<bar>get_position (portfolio short_engine) ''AAPL''\<bar>
   \<and> get_position (execute_fill (portfolio short_engine)
        \<lparr>fe_timestamp = 1, fe_symbol = ''AAPL'', fe_quantity = oe_quantity aapl_order,
         fe_direction = BUY, fe_fill_price = 100, fe_commission = 10, fe_slippage = 0\<rparr>) ''AAPL'' = 90"
proof -
  have "get_position (execute_fill (portfolio short_engine)
        \<lparr>fe_timestamp = 1, fe_symbol = ''AAPL'', fe_quantity = oe_quantity aapl_order,
         fe_direction = BUY, fe_fill_price = 100, fe_commission = 10, fe_slippage = 0\<rparr>) ''AAPL'' = 90"
    using short_position
    by (simp add: get_position_def execute_fill_def dict_get_positions_add aapl_order_def)
  then show ?thesis
    using short_position short_engine_order
    by (simp add: aapl_signal_def aapl_order_def)
qed

lemma execute_order_fill:
  assumes "execute_order h order m = Some fill"
  shows "fe_symbol fill = oe_symbol order \<and> fe_quantity fill = oe_quantity order
         \<and> fe_direction fill = oe_direction order"
  using assms by (auto simp: execute_order_def Let_def split: option.splits)

lemma get_position_execute_fill:
  "get_position (execute_fill p fill) (fe_symbol fill)
   = get_position p (fe_symbol fill)
     + (if fe_direction fill = BUY then fe_quantity fill else - fe_quantity fill)"
  by (simp add: get_position_def execute_fill_def Let_def dict_get_positions_add)

text \<open>
  Claim C4 as amended. A sell signal that arrives when the position is exactly 0 makes the
  router emit a sell order of the target quantity, and every fill that the execution
  handler returns for that order leaves the position at minus the target quantity: it
  opens a short. A buy signal that arrives when the position is strictly negative makes the
  router emit a buy order of the target quantity as well (the branch
  \<^verbatim>\<open>current_position <= 0\<close> does not look at the size of the short); every fill of that
  order leaves the position at the old position plus the target quantity, which is past
  flat exactly when the target quantity exceeds the size of the short.
\<close>

theorem router_at_flat_and_short:
  "(se_signal_type event = - 1 \<and> get_position (portfolio eng) (se_symbol event) = 0 \<longrightarrow>
      handle_signal_event event eng = put (order_for event (target_quantity eng event) SELL) eng
      \<and> (order_for event (target_quantity eng event) SELL = Order order
           \<and> execute_order h order m = Some fill \<longrightarrow>
         get_position (execute_fill (portfolio eng) fill) (se_symbol event)
           = - target_quantity eng event))
   \<and> (se_signal_type event = 1 \<and> get_position (portfolio eng) (se_symbol event) < 0 \<longrightarrow>
      handle_signal_event event eng = put (order_for event (target_quantity eng event) BUY) eng
      \<and> (order_for event (target_quantity eng event) BUY = Order order
           \<and> execute_order h order m = Some fill \<longrightarrow>
         get_position (execute_fill (portfolio eng) fill) (se_symbol event)
           = get_position (portfolio eng) (se_symbol event) + target_quantity eng event
         \<and> (0 < get_position (execute_fill (portfolio eng) fill) (se_symbol event)
              \<longleftrightarrow> \<bar>get_position (portfolio eng) (se_symbol event)\<bar> < target_quantity eng event)))"
proof -
  have r: "(se_signal_type event = - 1 \<and> get_position (portfolio eng) (se_symbol event) = 0 \<longrightarrow>
      handle_signal_event event eng = put (order_for event (target_quantity eng event) SELL) eng)
   \<and> (se_signal_type event = 1 \<and> get_position (portfolio eng) (se_symbol event) < 0 \<longrightarrow>
      handle_signal_event event eng = put (order_for event (target_quantity eng event) BUY) eng)"
    by (simp add: handle_signal_event_def Let_def order_for_def target_quantity_def)
  have f: "order_for event q d = Order order \<and> execute_order h order m = Some fill \<longrightarrow>
      get_position (execute_fill (portfolio eng) fill) (se_symbol event)
        = get_position (portfolio eng) (se_symbol event) + (if d = BUY then q else - q)" for q d
  proof
    assume a: "order_for event q d = Order order \<and> execute_order h order m = Some fill"
    then have o: "oe_symbol order = se_symbol event" "oe_quantity order = q" "oe_direction order = d"
      by (auto simp: order_for_def)
    from a execute_order_fill [of h order m fill] o
    have "fe_symbol fill = se_symbol event" "fe_quantity fill = q" "fe_direction fill = d"
      by simp_all
    with get_position_execute_fill [of "portfolio eng" fill]
    show "get_position (execute_fill (portfolio eng) fill) (se_symbol event)
        = get_position (portfolio eng) (se_symbol event) + (if d = BUY then q else - q)"
      by simp
  qed
  from r f [of "target_quantity eng event" SELL] f [of "target_quantity eng event" BUY]
  show ?thesis by auto
qed

text \<open>
  The witness: a sell signal at a flat position of the default engine (order of 100 shares,
  position -100 after the fill), and a buy signal at the position -10 (order of 100 shares,
  position 90 after the fill).
\<close>

theorem router_at_flat_and_short_witness:
  "se_signal_type aapl_sell_signal = - 1
   \<and> get_position (portfolio (BacktestEngine_init default_config fresh_strategy)) (se_symbol aapl_sell_signal) = 0
   \<and> events (handle_signal_event aapl_sell_signal (BacktestEngine_init default_config fresh_strategy))
     = [Order \<lparr>oe_timestamp = 1, oe_symbol = ''AAPL'', oe_order_type = MARKET,
               oe_quantity = 100, oe_direction = SELL\<rparr>]
   \<and> execute_order (execution_handler (BacktestEngine_init default_config fresh_strategy))
        \<lparr>oe_timestamp = 1, oe_symbol = ''AAPL'', oe_order_type = MARKET,
         oe_quantity = 100, oe_direction = SELL\<rparr> aapl_market_event
     = Some \<lparr>fe_timestamp = 1, fe_symbol = ''AAPL'', fe_quantity = 100, fe_direction = SELL,
             fe_fill_price = 9995 / 100, fe_commission = 9995 / 1000, fe_slippage = 5 / 10000\<rparr>
   \<and> get_position (execute_fill (portfolio (BacktestEngine_init default_config fresh_strategy))
        \<lparr>fe_timestamp = 1, fe_symbol = ''AAPL'', fe_quantity = 100, fe_direction = SELL,
         fe_fill_price = 9995 / 100, fe_commission = 9995 / 1000, fe_slippage = 5 / 10000\<rparr>)
        ''AAPL'' = - 100
   \<and> se_signal_type aapl_signal = 1
   \<and> get_position (portfolio short_engine) (se_symbol aapl_signal) < 0
   \<and> events (handle_signal_event aapl_signal short_engine)
     = [Order \<lparr>oe_timestamp = 1, oe_symbol = ''AAPL'', oe_order_type = MARKET,
               oe_quantity = 100, oe_direction = BUY\<rparr>]
   \<and> execute_order (execution_handler short_engine)
        \<lparr>oe_timestamp = 1, oe_symbol = ''AAPL'', oe_order_type = MARKET,
         oe_quantity = 100, oe_direction = BUY\<rparr> aapl_market_event
     = Some \<lparr>fe_timestamp = 1, fe_symbol = ''AAPL'', fe_quantity = 100, fe_direction = BUY,
             fe_fill_price = 10005 / 100, fe_commission = 10005 / 1000, fe_slippage = 5 / 10000\<rparr>
   \<and> get_position (execute_fill (portfolio short_engine)
        \<lparr>fe_timestamp = 1, fe_symbol = ''AAPL'', fe_quantity = 100, fe_direction = BUY,
         fe_fill_price = 10005 / 100, fe_commission = 10005 / 1000, fe_slippage = 5 / 10000\<rparr>)
        ''AAPL'' = 90
   \<and> \<bar>get_position (portfolio short_engine) ''AAPL''\<bar> < target_quantity short_engine aapl_signal"
proof -
  let ?e0 = "BacktestEngine_init default_config fresh_strategy :: unit BacktestEngine"
  let ?so = "\<lparr>oe_timestamp = 1, oe_symbol = ''AAPL'', oe_order_type = MARKET,
              oe_quantity = 100, oe_direction = SELL\<rparr>"
  let ?bo = "\<lparr>oe_timestamp = 1, oe_symbol = ''AAPL'', oe_order_type = MARKET,
              oe_quantity = 100, oe_direction = BUY\<rparr>"
  let ?sf = "\<lparr>fe_timestamp = 1, fe_symbol = ''AAPL'', fe_quantity = 100, fe_direction = SELL,
              fe_fill_price = 9995 / 100, fe_commission = 9995 / 1000, fe_slippage = 5 / 10000\<rparr>"
  let ?bf = "\<lparr>fe_timestamp = 1, fe_symbol = ''AAPL'', fe_quantity = 100, fe_direction = BUY,
              fe_fill_price = 10005 / 100, fe_commission = 10005 / 1000, fe_slippage = 5 / 10000\<rparr>"
  have a1: "se_signal_type aapl_sell_signal = - 1" by (simp add: aapl_sell_signal_def)
  have a2: "get_position (portfolio ?e0) (se_symbol aapl_sell_signal) = 0"
    by (simp add: BacktestEngine_init_def Portfolio_init_def get_position_def dict_get_Nil)
  have b1: "se_signal_type aapl_signal = 1" by (simp add: aapl_signal_def)
  have b2: "get_position (portfolio short_engine) (se_symbol aapl_signal) < 0"
    using short_position by (simp add: aapl_signal_def)
  have tq0: "target_quantity ?e0 aapl_sell_signal = 100"
    by (simp add: target_quantity_def BacktestEngine_init_def default_config_def
          Portfolio_init_def aapl_sell_signal_def)
  have tq1: "target_quantity short_engine aapl_signal = 100"
    by (simp add: target_quantity_def short_engine_def BacktestEngine_init_def default_config_def
          Portfolio_init_def aapl_signal_def execute_fill_def aapl_short_fill_def)
  have o0: "order_for aapl_sell_signal (target_quantity ?e0 aapl_sell_signal) SELL = Order ?so"
    by (simp only: tq0) (simp add: order_for_def aapl_sell_signal_def)
  have o1: "order_for aapl_signal (target_quantity short_engine aapl_signal) BUY = Order ?bo"
    by (simp only: tq1) (simp add: order_for_def aapl_signal_def)
  have x0: "execute_order (execution_handler ?e0) ?so aapl_market_event = Some ?sf"
    by (simp add: execute_order_def get_price_def aapl_market_event_def aapl_bar_def
          BacktestEngine_init_def default_config_def Let_def)
  have x1: "execute_order (execution_handler short_engine) ?bo aapl_market_event = Some ?bf"
    by (simp add: execute_order_def get_price_def aapl_market_event_def aapl_bar_def
          short_engine_def BacktestEngine_init_def default_config_def Let_def)
  from router_at_flat_and_short
         [where event = aapl_sell_signal and eng = ?e0 and order = ?so
            and h = "execution_handler ?e0" and m = aapl_market_event and fill = ?sf]
       a1 a2 o0 x0
  have s: "handle_signal_event aapl_sell_signal ?e0
           = put (order_for aapl_sell_signal (target_quantity ?e0 aapl_sell_signal) SELL) ?e0"
    and sp: "get_position (execute_fill (portfolio ?e0) ?sf) (se_symbol aapl_sell_signal)
             = - target_quantity ?e0 aapl_sell_signal"
    by blast+
  from router_at_flat_and_short
         [where event = aapl_signal and eng = short_engine and order = ?bo
            and h = "execution_handler short_engine" and m = aapl_market_event and fill = ?bf]
       b1 b2 o1 x1
  have b: "handle_signal_event aapl_signal short_engine
           = put (order_for aapl_signal (target_quantity short_engine aapl_signal) BUY) short_engine"
    and bp: "get_position (execute_fill (portfolio short_engine) ?bf) (se_symbol aapl_signal)
             = get_position (portfolio short_engine) (se_symbol aapl_signal)
               + target_quantity short_engine aapl_signal"
    by blast+
  have ev0: "events ?e0 = []" by (simp add: BacktestEngine_init_def)
  have ev1: "events short_engine = []" by (simp add: short_engine_def BacktestEngine_init_def)
  have sym: "se_symbol aapl_sell_signal = ''AAPL''" "se_symbol aapl_signal = ''AAPL''"
    by (simp_all add: aapl_sell_signal_def aapl_signal_def)
  have c1: "events (handle_signal_event aapl_sell_signal ?e0) = [Order ?so]"
    by (simp add: s o0 put_def ev0)
  have c2: "events (handle_signal_event aapl_signal short_engine) = [Order ?bo]"
    by (simp add: b o1 put_def ev1)
  have c3: "get_position (execute_fill (portfolio ?e0) ?sf) ''AAPL'' = - 100"
    using sp by (simp add: sym tq0)
  have c4: "get_position (execute_fill (portfolio short_engine) ?bf) ''AAPL'' = 90"
    using bp short_position by (simp add: sym tq1)
  have c5: "\<bar>get_position (portfolio short_engine) ''AAPL''\<bar> < target_quantity short_engine aapl_signal"
    by (simp add: short_position tq1)
  from a1 a2 b1 b2 c1 c2 c3 c4 c5 x0 x1 show ?thesis by (simp only: simp_thms)
qed

section \<open>Equity snapshots (claim C3)\<close>

lemma foldl_position_value_step:
  "foldl (position_value_step prices) a ps = a + sum_list (map (priced_today prices) ps)"
proof (induction ps arbitrary: a)
  case Nil
  show ?case by simp
next
  case (Cons kv ps)
  have "position_value_step prices a kv = a + priced_today prices kv"
    by (cases kv) (simp add: position_value_step_def priced_today_def split: option.splits)
  with Cons show ?case by simp
qed

lemma sum_list_flat:
  "\<forall>kv \<in> set ps. snd kv = 0 \<Longrightarrow> sum_list (map (priced_today prices) ps) = 0"
  by (induction ps) (simp_all add: priced_today_def split: option.splits)

lemma held_portfolio_eq:
  "held_portfolio = \<lparr>initial_capital = 1000, pf_commission = 0, cash = 949,
      positions = [(''AAPL'', 10)], portfolio_value = 1000, history = []\<rparr>"
  by (simp add: held_portfolio_def execute_fill_def Portfolio_init_def small_buy_fill_def
        positions_add_def defaultdict_getitem_def)

text \<open>
  Claim C3 fails on a day when a held symbol has no price in the day's map. The portfolio
  holds 10 shares of AAPL and cash 949. With the AAPL price 5 in the map the snapshot's
  total is 999. The next day the map has no AAPL entry: the snapshot's total is 949, the
  cash alone, whereas cash plus quantity times the last known price is 999. The two differ
  by 50, far beyond 1e-6.
\<close>

theorem absent_price_drops_position_from_total:
  "positions two_day_portfolio = [(''AAPL'', 10)]
   \<and> cash two_day_portfolio = 949
   \<and> map snap_total_value (history two_day_portfolio) = [999, 949]
   \<and> spec_total_value two_day_portfolio [[(''AAPL'', 5)], [(''MSFT'', 50)]] = 999
   \<and> \<not> \<bar>snap_total_value (last (history two_day_portfolio))
          - spec_total_value two_day_portfolio [[(''AAPL'', 5)], [(''MSFT'', 50)]]\<bar> \<le> 1 / 1000000"
  by (simp add: two_day_portfolio_def held_portfolio_eq update_market_value_def Let_def
        position_value_step_def spec_total_value_def)

text \<open>
  Claim C3 as amended. Every call of \<^verbatim>\<open>update_market_value\<close> appends one snapshot, whose
  total value equals the cash plus the sum, over the ledger entries whose symbol has a
  price in that day's price map, of quantity times that day's price; an entry whose symbol
  is absent from the map adds nothing. The equality is exact over the reals, hence within
  1e-6. The total equals the cash when all positions are flat, and the portfolio value is
  the snapshot's total.
\<close>

theorem snapshot_total_value:
  "history (update_market_value p prices ts)
     = history p @ [last (history (update_market_value p prices ts))]
   \<and> snap_timestamp (last (history (update_market_value p prices ts))) = ts
   \<and> snap_cash (last (history (update_market_value p prices ts))) = cash p
   \<and> snap_positions (last (history (update_market_value p prices ts))) = positions p
   \<and> snap_total_value (last (history (update_market_value p prices ts)))
     = cash p + sum_list (map (priced_today prices) (positions p))
   \<and> portfolio_value (update_market_value p prices ts)
     = snap_total_value (last (history (update_market_value p prices ts)))
   \<and> ((\<forall>kv \<in> set (positions p). snd kv = 0) \<longrightarrow>
        snap_total_value (last (history (update_market_value p prices ts))) = cash p)"
  by (simp add: update_market_value_def Let_def foldl_position_value_step sum_list_flat)

theorem snapshot_total_value_witness:
  "positions (execute_fill held_portfolio small_sell_fill) = [(''AAPL'', 0)]
   \<and> snap_total_value (last (history
        (update_market_value (execute_fill held_portfolio small_sell_fill) [(''AAPL'', 7)] 4)))
     = cash (execute_fill held_portfolio small_sell_fill)
   \<and> snap_total_value (last (history
        (update_market_value held_portfolio [(''MSFT'', 50), (''AAPL'', 7)] 2))) = 949 + 10 * 7
   \<and> snap_total_value (last (history (update_market_value held_portfolio [(''MSFT'', 50)] 2))) = 949"
proof -
  let ?flat = "execute_fill held_portfolio small_sell_fill"
  have pf: "positions ?flat = [(''AAPL'', 0)]"
    by (simp add: held_portfolio_eq execute_fill_def small_sell_fill_def positions_add_def
          defaultdict_getitem_def)
  then have fl: "\<forall>kv \<in> set (positions ?flat). snd kv = 0" by simp
  from snapshot_total_value [of ?flat "[(''AAPL'', 7)]" 4] fl
  have 1: "snap_total_value (last (history (update_market_value ?flat [(''AAPL'', 7)] 4))) = cash ?flat"
    by blast
  from snapshot_total_value [of held_portfolio "[(''MSFT'', 50), (''AAPL'', 7)]" 2]
  have 2: "snap_total_value (last (history
        (update_market_value held_portfolio [(''MSFT'', 50), (''AAPL'', 7)] 2))) = 949 + 10 * 7"
    by (simp add: held_portfolio_eq priced_today_def)
  from snapshot_total_value [of held_portfolio "[(''MSFT'', 50)]" 2]
  have 3: "snap_total_value (last (history (update_market_value held_portfolio [(''MSFT'', 50)] 2))) = 949"
    by (simp add: held_portfolio_eq priced_today_def)
  show ?thesis using pf fl 1 2 3 by simp
qed

section \<open>Invalid configuration (claim C7)\<close>

lemma validate_iff:
  "validate cfg \<longleftrightarrow>
     0 < bc_initial_capital (backtest cfg) \<and> 0 \<le> bc_commission (backtest cfg)
     \<and> 0 \<le> bc_slippage (backtest cfg)
     \<and> 0 < max_position_size (risk cfg) \<and> max_position_size (risk cfg) \<le> 1
     \<and> 0 \<le> stop_loss_pct (risk cfg)
     \<and> 0 < rc_max_drawdown (risk cfg) \<and> rc_max_drawdown (risk cfg) \<le> 1"
  by (auto simp: validate_def validate_errors_def)

lemma bad_config_invalid: "\<not> validate bad_config"
  by (simp add: validate_iff bad_config_def)

text \<open>
  Claim C7 fails: nothing raises on an invalid configuration. With a negative commission,
  a negative slippage and a position fraction of 2, \<^verbatim>\<open>validate\<close> returns false, and a run
  on one day of data, with a strategy that does not raise, completes its main loop with
  one equity snapshot recorded.
\<close>

theorem invalid_configuration_runs_to_completion:
  "\<not> validate bad_config
   \<and> bc_commission (backtest bad_config) < 0
   \<and> bc_slippage (backtest bad_config) < 0
   \<and> \<not> max_position_size (risk bad_config) \<le> 1
   \<and> \<not> isl (run buy_strategy (BacktestEngine_init bad_config fresh_strategy) [''AAPL''] (Inr [aapl_row]))
   \<and> length (history (portfolio (projr (run buy_strategy
        (BacktestEngine_init bad_config fresh_strategy) [''AAPL''] (Inr [aapl_row]))))) = 1"
proof -
  let ?e = "BacktestEngine_init bad_config fresh_strategy :: unit BacktestEngine"
  have e: "events ?e = []" by (simp add: BacktestEngine_init_def)
  have n: "[aapl_row] \<noteq> []" by simp
  have i: "\<not> isl (run buy_strategy ?e [''AAPL''] (Inr [aapl_row]))"
    by (rule never_raises_run [OF never_raises_buy_strategy e n])
  then obtain eng' where r: "run buy_strategy ?e [''AAPL''] (Inr [aapl_row]) = Inr eng'"
    by (cases "run buy_strategy ?e [''AAPL''] (Inr [aapl_row])") simp_all
  have h: "history (portfolio ?e) = []"
    by (simp add: BacktestEngine_init_def Portfolio_init_def)
  from run_facts [OF e n, of buy_strategy "[''AAPL'']"] r h
  have l: "length (history (portfolio eng')) = 1" by (simp add: groupby_aapl)
  show ?thesis
    using bad_config_invalid l
    by (simp add: r) (simp add: bad_config_def)
qed

text \<open>
  Claim C7 as amended. \<^verbatim>\<open>Config.validate\<close> returns false exactly when a rule is violated.
  Up to the end of its main loop, \<^verbatim>\<open>run\<close> behaves alike under any two configurations,
  valid or not: for the same strategy, the same strategy object and the same answer of the
  data loader, it ends with the same exception, if any, and with the same number of equity
  snapshots recorded. In particular, when the loader returns a non-empty frame and the
  strategy's \<^verbatim>\<open>initialize\<close> and \<^verbatim>\<open>generate_signals\<close> never raise, the main loop completes
  under every configuration and records one equity snapshot per trading day.
\<close>

theorem configuration_does_not_decide_the_run:
  "(validate cfg \<longleftrightarrow>
     0 < bc_initial_capital (backtest cfg) \<and> 0 \<le> bc_commission (backtest cfg)
     \<and> 0 \<le> bc_slippage (backtest cfg)
     \<and> 0 < max_position_size (risk cfg) \<and> max_position_size (risk cfg) \<le> 1
     \<and> 0 \<le> stop_loss_pct (risk cfg)
     \<and> 0 < rc_max_drawdown (risk cfg) \<and> rc_max_drawdown (risk cfg) \<le> 1)
   \<and> raised_and_snapshots (run strat (BacktestEngine_init cfg strat_obj) syms loaded)
     = raised_and_snapshots (run strat (BacktestEngine_init cfg' strat_obj) syms loaded)
   \<and> (never_raises strat \<and> rows \<noteq> [] \<longrightarrow>
        raised_and_snapshots (run strat (BacktestEngine_init cfg strat_obj) syms (Inr rows))
          = (None, length (groupby_date rows)))"
proof -
  let ?a = "BacktestEngine_init cfg strat_obj"
  let ?b = "BacktestEngine_init cfg' strat_obj"
  have ab: "same_progress_idle ?a ?b"
    by (simp add: same_progress_idle_def same_progress_def same_strategy_def
          BacktestEngine_init_def Portfolio_init_def)
  have 1: "raised_and_snapshots (run strat ?a syms loaded)
           = raised_and_snapshots (run strat ?b syms loaded)"
    by (rule raised_and_snapshots_rel [OF run_rel [OF ab]])
  have 2: "never_raises strat \<and> rows \<noteq> [] \<longrightarrow>
        raised_and_snapshots (run strat ?a syms (Inr rows)) = (None, length (groupby_date rows))"
  proof
    assume h: "never_raises strat \<and> rows \<noteq> []"
    have e: "events ?a = []" by (simp add: BacktestEngine_init_def)
    have h0: "history (portfolio ?a) = []" by (simp add: BacktestEngine_init_def Portfolio_init_def)
    from h never_raises_run [OF _ e, of strat rows syms]
    have n: "\<not> isl (run strat ?a syms (Inr rows))" by simp
    then obtain eng' where r: "run strat ?a syms (Inr rows) = Inr eng'"
      by (cases "run strat ?a syms (Inr rows)") simp_all
    from run_facts [OF e, of rows strat syms] h n r h0
    have "length (history (portfolio eng')) = length (groupby_date rows)" by simp
    with r show "raised_and_snapshots (run strat ?a syms (Inr rows)) = (None, length (groupby_date rows))"
      by (simp add: raised_and_snapshots_def)
  qed
  from 1 2 validate_iff [of cfg] show ?thesis by blast
qed

text \<open>
  The witness: the invalid configuration and the default one, on three rows of two dates.
  Both runs complete the loop with two snapshots.
\<close>

theorem configuration_does_not_decide_the_run_witness:
  "never_raises buy_strategy \<and> [aapl_row2, aapl_row, msft_row] \<noteq> []
   \<and> \<not> validate bad_config \<and> validate default_config
   \<and> raised_and_snapshots (run buy_strategy (BacktestEngine_init bad_config fresh_strategy)
        [''AAPL'', ''MSFT''] (Inr [aapl_row2, aapl_row, msft_row])) = (None, 2)
   \<and> raised_and_snapshots (run buy_strategy (BacktestEngine_init default_config fresh_strategy)
        [''AAPL'', ''MSFT''] (Inr [aapl_row2, aapl_row, msft_row])) = (None, 2)"
proof -
  have n: "[aapl_row2, aapl_row, msft_row] \<noteq> []" by simp
  have v: "validate default_config" by (simp add: validate_iff default_config_def)
  note t = configuration_does_not_decide_the_run
             [where cfg = bad_config and cfg' = default_config and strat = buy_strategy
                and strat_obj = fresh_strategy and syms = "[''AAPL'', ''MSFT'']"
                and rows = "[aapl_row2, aapl_row, msft_row]"
                and loaded = "Inr [aapl_row2, aapl_row, msft_row]"]
  from t never_raises_buy_strategy n
  have a: "raised_and_snapshots (run buy_strategy (BacktestEngine_init bad_config fresh_strategy)
        [''AAPL'', ''MSFT''] (Inr [aapl_row2, aapl_row, msft_row]))
        = (None, length (groupby_date [aapl_row2, aapl_row, msft_row]))"
    and b: "raised_and_snapshots (run buy_strategy (BacktestEngine_init bad_config fresh_strategy)
        [''AAPL'', ''MSFT''] (Inr [aapl_row2, aapl_row, msft_row]))
      = raised_and_snapshots (run buy_strategy (BacktestEngine_init default_config fresh_strategy)
        [''AAPL'', ''MSFT''] (Inr [aapl_row2, aapl_row, msft_row]))"
    by blast+
  from a have a': "raised_and_snapshots (run buy_strategy (BacktestEngine_init bad_config fresh_strategy)
        [''AAPL'', ''MSFT''] (Inr [aapl_row2, aapl_row, msft_row])) = (None, 2)"
    by (simp add: groupby_three_rows)
  with b have b': "raised_and_snapshots (run buy_strategy (BacktestEngine_init default_config fresh_strategy)
        [''AAPL'', ''MSFT''] (Inr [aapl_row2, aapl_row, msft_row])) = (None, 2)"
    by simp
  from never_raises_buy_strategy n bad_config_invalid v a' b' show ?thesis by simp
qed

section \<open>Calmar ratio (claim C9)\<close>

text \<open>
  Claim C9. For every metrics object, \<^verbatim>\<open>calmar_ratio\<close> returns the annualized return
  divided by the maximum drawdown when the maximum drawdown is not zero; when it is zero it
  returns plus infinity if the annualized return is positive and 0 otherwise. It never
  fails: the division is reached only with a nonzero divisor.
\<close>

theorem calmar_ratio_cases:
  "calmar_ratio m
     = Inr (if max_drawdown m = 0
            then (if annualized_return m > 0 then PosInf else Finite 0)
            else Finite (annualized_return m / max_drawdown m))
   \<and> \<not> isl (calmar_ratio m)"
  by (simp add: calmar_ratio_def Let_def float_div_def)

lemma dip_metrics:
  "PerformanceMetrics_init [snap 200 100, snap 0 100, snap 100 50] (2 / 100)
     = Inr \<lparr>pm_history = [snap 0 100, snap 100 50, snap 200 100], risk_free_rate = 2 / 100\<rparr>"
  by (simp add: PerformanceMetrics_init_def snap_def)

lemma dip_drawdown:
  "max_drawdown \<lparr>pm_history = [snap 0 100, snap 100 50, snap 200 100], risk_free_rate = 2 / 100\<rparr> = 1 / 2"
  by (simp add: max_drawdown_def Let_def expanding_max_def series_min_def snap_def)

lemma dip_return:
  "annualized_return \<lparr>pm_history = [snap 0 100, snap 100 50, snap 200 100], risk_free_rate = 2 / 100\<rparr> = 0"
  by (simp add: annualized_return_def total_return_def Let_def snap_def)

lemma flat_drawdown:
  "max_drawdown \<lparr>pm_history = [snap 0 50, snap 1 50, snap 2 50], risk_free_rate = 2 / 100\<rparr> = 0"
  by (simp add: max_drawdown_def Let_def expanding_max_def series_min_def snap_def)

lemma flat_return:
  "annualized_return \<lparr>pm_history = [snap 0 50, snap 1 50, snap 2 50], risk_free_rate = 2 / 100\<rparr> = 0"
  by (simp add: annualized_return_def total_return_def Let_def snap_def)

lemma rise_drawdown:
  "max_drawdown \<lparr>pm_history = [snap 0 100, snap 365 110], risk_free_rate = 2 / 100\<rparr> = 0"
  by (simp add: max_drawdown_def Let_def expanding_max_def series_min_def snap_def)

lemma rise_return:
  "annualized_return \<lparr>pm_history = [snap 0 100, snap 365 110], risk_free_rate = 2 / 100\<rparr> > 0"
proof -
  have "(1 :: real) < (11 / 10) powr (1461 / 1460)"
    by (rule gr_one_powr) simp_all
  then show ?thesis
    by (simp add: annualized_return_def total_return_def Let_def snap_def)
qed

text \<open>
  The witness: a history given out of order that dips from 100 to 50 and recovers
  (drawdown one half, return 0), a flat history (drawdown 0, return 0), and a rising
  history (drawdown 0, positive return).
\<close>

theorem calmar_ratio_cases_witness:
  "PerformanceMetrics_init [snap 200 100, snap 0 100, snap 100 50] (2 / 100)
     = Inr \<lparr>pm_history = [snap 0 100, snap 100 50, snap 200 100], risk_free_rate = 2 / 100\<rparr>
   \<and> max_drawdown \<lparr>pm_history = [snap 0 100, snap 100 50, snap 200 100], risk_free_rate = 2 / 100\<rparr> = 1 / 2
   \<and> calmar_ratio \<lparr>pm_history = [snap 0 100, snap 100 50, snap 200 100], risk_free_rate = 2 / 100\<rparr>
     = Inr (Finite 0)
   \<and> max_drawdown \<lparr>pm_history = [snap 0 50, snap 1 50, snap 2 50], risk_free_rate = 2 / 100\<rparr> = 0
   \<and> calmar_ratio \<lparr>pm_history = [snap 0 50, snap 1 50, snap 2 50], risk_free_rate = 2 / 100\<rparr>
     = Inr (Finite 0)
   \<and> max_drawdown \<lparr>pm_history = [snap 0 100, snap 365 110], risk_free_rate = 2 / 100\<rparr> = 0
   \<and> calmar_ratio \<lparr>pm_history = [snap 0 100, snap 365 110], risk_free_rate = 2 / 100\<rparr> = Inr PosInf"
  using calmar_ratio_cases [of "\<lparr>pm_history = [snap 0 100, snap 100 50, snap 200 100], risk_free_rate = 2 / 100\<rparr>"]
    calmar_ratio_cases [of "\<lparr>pm_history = [snap 0 50, snap 1 50, snap 2 50], risk_free_rate = 2 / 100\<rparr>"]
    calmar_ratio_cases [of "\<lparr>pm_history = [snap 0 100, snap 365 110], risk_free_rate = 2 / 100\<rparr>"]
    dip_metrics dip_drawdown dip_return flat_drawdown flat_return rise_drawdown rise_return
  by simp

end
